theory Spec2Isabelle
  imports Complex_Main "HOL-Library.Word"
begin

unbundle bit_operations_syntax

section \<open>MyExeServerPy: a Python COM server built on comtypes\<close>

text \<open>
  The program is one Python module, \<^verbatim>\<open>MyExeServerPy.py\<close>. It checks the version of
  comtypes, loads a type library, defines the classes \<^verbatim>\<open>NumberCruncher\<close> and
  \<^verbatim>\<open>MyServerImpl\<close> and, when run as a script, hands \<^verbatim>\<open>MyServerImpl\<close> to
  \<^verbatim>\<open>comtypes.server.register.UseCommandLine\<close>.

  The embedding keeps Python's objects in a heap (a list, an object's address being its
  index), the module's global names in an association list, exceptions as the left
  summand of a sum type, and the calls into comtypes that act on the outside world as a
  trace of events.
\<close>

subsection \<open>Values and exceptions\<close>

type_synonym addr = nat

text \<open>
  A Python float is an IEEE-754 binary64 number, kept as its 64 bits. An interface
  pointer \<open>PyPointer i a\<close> is comtypes' \<^verbatim>\<open>POINTER(i)\<close> onto the COM object at address
  \<open>a\<close>. Type-library items, classes, modules and functions are known by their names.
\<close>

datatype pyval =
    PyNone
  | PyFloat "64 word"
  | PyInt int
  | PyStr string
  | PyRef addr
  | PyClass string
  | PyModule string
  | PyFunction string
  | PyTypeLib string
  | PyIface string
  | PyPointer string addr

text \<open>
  \<^verbatim>\<open>ModuleNotFoundError\<close> is what an \<^verbatim>\<open>import\<close> of a missing module raises; in Python it is a
  subclass of \<^verbatim>\<open>ImportError\<close>. \<^verbatim>\<open>InvalidVersion\<close> is what \<^verbatim>\<open>packaging.version.parse\<close> raises.
\<close>

datatype exn =
    ImportError string
  | ModuleNotFoundError string
  | InvalidVersion
  | OSError string
  | NameError string
  | AttributeError string
  | TypeError string
  | COMError string

type_synonym result = "exn + pyval"

subsection \<open>The float literal\<close>

text \<open>
  \<open>double_value\<close> reads a finite binary64: sign bit, 11 exponent bits biased by 1023,
  52 fraction bits; exponent 0 is a subnormal number, exponent 2047 (infinities and
  NaN) has no value.
\<close>

definition double_value :: "64 word \<Rightarrow> rat option" where
  "double_value w =
     (let sgn = (if bit w 63 then -1 else 1 :: rat);
          e = unat (drop_bit 52 w AND mask 11);
          f = unat (w AND mask 52)
      in if e = 2047 then None
         else if e = 0 then Some (sgn * of_nat f / 2 ^ 1074)
         else if e < 1075 then Some (sgn * of_nat (2 ^ 52 + f) / 2 ^ (1075 - e))
         else Some (sgn * of_nat (2 ^ 52 + f) * 2 ^ (e - 1075)))"

text \<open>The value of the literal \<^verbatim>\<open>3.14\<close>: the binary64 nearest to 314/100.\<close>

definition float_3_14 :: "64 word" where
  "float_3_14 = 0x40091EB851EB851F"

subsection \<open>Objects and the program state\<close>

record pyobj =
  obj_class :: string
  obj_dict :: "(string \<times> pyval) list"

record state =
  heap :: "pyobj list"
  globals :: "(string \<times> pyval) list"

text \<open>A global name is read from the module's namespace; an unbound one raises.\<close>

definition load_global :: "string \<Rightarrow> state \<Rightarrow> result" where
  "load_global n s =
     (case map_of (globals s) n of
        None \<Rightarrow> Inl (NameError n)
      | Some v \<Rightarrow> Inr v)"

text \<open>
  Calling a class creates a new object of it. Neither class of the program defines
  \<^verbatim>\<open>__init__\<close>, so the new object's own dictionary is empty. The heap only grows: the new
  object takes the first address not yet in use.
\<close>

definition instantiate :: "pyval \<Rightarrow> state \<Rightarrow> (exn + addr) \<times> state" where
  "instantiate c s =
     (case c of
        PyClass cn \<Rightarrow>
          (Inr (length (heap s)),
           s\<lparr>heap := heap s @ [\<lparr>obj_class = cn, obj_dict = []\<rparr>]\<rparr>)
      | _ \<Rightarrow> (Inl (TypeError ''object is not callable''), s))"

text \<open>
  Attribute access on the generated type-library module. The type library
  \<^verbatim>\<open>MyInterfaces.tlb\<close> is not among the sources; the module reads two names from it,
  the interface \<^verbatim>\<open>INumberCruncher\<close> and the coclass \<^verbatim>\<open>MyServer\<close>.
\<close>

definition typelib_names :: "string list" where
  "typelib_names = [''INumberCruncher'', ''MyServer'']"

definition getattr_typelib :: "pyval \<Rightarrow> string \<Rightarrow> result" where
  "getattr_typelib m n =
     (case m of
        PyTypeLib p \<Rightarrow>
          (if n \<in> set typelib_names
           then Inr (if n = ''MyServer'' then PyClass ''MyInterfaces.MyServer'' else PyIface n)
           else Inl (AttributeError n))
      | _ \<Rightarrow> Inl (AttributeError n))"

subsection \<open>Classes\<close>

text \<open>
  A class body is a list of attribute assignments and a list of method definitions.
  The values of the attributes the program assigns are strings, lists of interfaces,
  and two constants of comtypes: a class context and a registration flag.
\<close>

datatype clsctx =
    CLSCTX_INPROC_SERVER
  | CLSCTX_INPROC_HANDLER
  | CLSCTX_LOCAL_SERVER
  | CLSCTX_REMOTE_SERVER

datatype regcls =
    REGCLS_SINGLEUSE
  | REGCLS_MULTIPLEUSE
  | REGCLS_MULTI_SEPARATE

datatype attr =
    AStr string
  | AIfaces "string list"
  | AClsctx clsctx
  | ARegcls regcls

text \<open>
  A method is a function of the receiver and the state; \<open>Method0\<close> takes no argument
  besides \<^verbatim>\<open>self\<close>, \<open>Method1\<close> takes one.
\<close>

datatype pymethod =
    Method0 "addr \<Rightarrow> state \<Rightarrow> result \<times> state"
  | Method1 "addr \<Rightarrow> pyval \<Rightarrow> state \<Rightarrow> result \<times> state"

record pyclass =
  cls_name :: string
  cls_base :: string
  cls_attrs :: "(string \<times> attr) list"
  cls_methods :: "(string \<times> pymethod) list"

text \<open>
  The attribute assignments of the two class bodies, in the order of the source.
  \<^verbatim>\<open>_com_interfaces_ = [MyInterfaces.INumberCruncher]\<close> is evaluated when the class is
  defined; the interface is kept by its name.
\<close>

definition NumberCruncher_attrs :: "(string \<times> attr) list" where
  "NumberCruncher_attrs = [(''_com_interfaces_'', AIfaces [''INumberCruncher''])]"

definition MyServerImpl_attrs :: "(string \<times> attr) list" where
  "MyServerImpl_attrs =
     [(''_reg_threading_'', AStr ''Both''),
      (''_reg_desc_'', AStr ''Python-based COM server for testing''),
      (''_reg_clsctx_'', AClsctx CLSCTX_LOCAL_SERVER),
      (''_regcls_'', ARegcls REGCLS_MULTIPLEUSE)]"

definition class_attrs :: "string \<Rightarrow> (string \<times> attr) list option" where
  "class_attrs cn =
     (if cn = ''NumberCruncher'' then Some NumberCruncher_attrs
      else if cn = ''MyServerImpl'' then Some MyServerImpl_attrs
      else None)"

text \<open>
  An address outside the heap cannot arise in Python. The model answers it with
  \<open>None\<close>, and the functions below turn that into an error of their own, so that no
  function reads the heap out of range.
\<close>

definition deref :: "addr \<Rightarrow> state \<Rightarrow> pyobj option" where
  "deref a s = (if a < length (heap s) then Some (heap s ! a) else None)"

text \<open>
  \<^verbatim>\<open>obj.QueryInterface(interface)\<close> is inherited from comtypes' \<^verbatim>\<open>COMObject\<close>: it answers
  with a pointer of that interface onto the object when the object's class lists the
  interface in \<^verbatim>\<open>_com_interfaces_\<close>, and raises \<^verbatim>\<open>COMError\<close> (E_NOINTERFACE) otherwise.
  \<^verbatim>\<open>NumberCruncher\<close> sets \<^verbatim>\<open>_com_interfaces_\<close> in its own body. \<^verbatim>\<open>MyServerImpl\<close> takes its list from
  the coclass of the type library, which is not among the sources: the model has no list
  for it and answers E_NOINTERFACE there.
  The reference counts and the instance table that comtypes keeps for itself are not part
  of the program's state.
\<close>

definition QueryInterface :: "addr \<Rightarrow> pyval \<Rightarrow> state \<Rightarrow> result \<times> state" where
  "QueryInterface self interface s =
     (case interface of
        PyIface i \<Rightarrow>
          (case deref self s of
             None \<Rightarrow> (Inl (COMError ''E_POINTER''), s)
           | Some ob \<Rightarrow>
               (case class_attrs (obj_class ob) of
                  None \<Rightarrow> (Inl (COMError ''E_NOINTERFACE''), s)
                | Some as \<Rightarrow>
                    (case map_of as ''_com_interfaces_'' of
                       Some (AIfaces is) \<Rightarrow>
                         (if i \<in> set is then (Inr (PyPointer i self), s)
                          else (Inl (COMError ''E_NOINTERFACE''), s))
                     | _ \<Rightarrow> (Inl (COMError ''E_NOINTERFACE''), s))))
      | _ \<Rightarrow> (Inl (AttributeError ''_iid_''), s))"

subsection \<open>The methods of NumberCruncher and MyServerImpl\<close>

text \<open>\<^verbatim>\<open>def ComputePi(self): return 3.14\<close>\<close>

definition ComputePi :: "addr \<Rightarrow> state \<Rightarrow> result \<times> state" where
  "ComputePi self s = (Inr (PyFloat float_3_14), s)"

text \<open>
  \<^verbatim>\<open>def GetNumberCruncher(self):\<close>
  \<^verbatim>\<open>    obj = NumberCruncher()\<close>
  \<^verbatim>\<open>    return obj.QueryInterface(MyInterfaces.INumberCruncher)\<close>

  The names \<^verbatim>\<open>NumberCruncher\<close> and \<^verbatim>\<open>MyInterfaces\<close> are globals of the module, read when
  the method runs.
\<close>

definition GetNumberCruncher :: "addr \<Rightarrow> state \<Rightarrow> result \<times> state" where
  "GetNumberCruncher self s =
     (case load_global ''NumberCruncher'' s of
        Inl e \<Rightarrow> (Inl e, s)
      | Inr c \<Rightarrow>
          (case instantiate c s of
             (Inl e, s1) \<Rightarrow> (Inl e, s1)
           | (Inr obj, s1) \<Rightarrow>
               (case load_global ''MyInterfaces'' s1 of
                  Inl e \<Rightarrow> (Inl e, s1)
                | Inr m \<Rightarrow>
                    (case getattr_typelib m ''INumberCruncher'' of
                       Inl e \<Rightarrow> (Inl e, s1)
                     | Inr i \<Rightarrow> QueryInterface obj i s1))))"

text \<open>\<^verbatim>\<open>def Subscribe(self, client): pass # not implemented\<close>\<close>

definition Subscribe :: "addr \<Rightarrow> pyval \<Rightarrow> state \<Rightarrow> result \<times> state" where
  "Subscribe self client s = (Inr PyNone, s)"

text \<open>\<^verbatim>\<open>def Unsubscribe(self, client): pass # not implemented\<close>\<close>

definition Unsubscribe :: "addr \<Rightarrow> pyval \<Rightarrow> state \<Rightarrow> result \<times> state" where
  "Unsubscribe self client s = (Inr PyNone, s)"

subsection \<open>The two classes and the dispatch of a call\<close>

definition NumberCruncher :: pyclass where
  "NumberCruncher =
     \<lparr>cls_name = ''NumberCruncher'',
      cls_base = ''comtypes.CoClass'',
      cls_attrs = NumberCruncher_attrs,
      cls_methods = [(''ComputePi'', Method0 ComputePi)]\<rparr>"

definition MyServerImpl :: pyclass where
  "MyServerImpl =
     \<lparr>cls_name = ''MyServerImpl'',
      cls_base = ''MyInterfaces.MyServer'',
      cls_attrs = MyServerImpl_attrs,
      cls_methods =
        [(''GetNumberCruncher'', Method0 GetNumberCruncher),
         (''Subscribe'', Method1 Subscribe),
         (''Unsubscribe'', Method1 Unsubscribe)]\<rparr>"

definition program_classes :: "pyclass list" where
  "program_classes = [NumberCruncher, MyServerImpl]"

definition lookup_class :: "string \<Rightarrow> pyclass option" where
  "lookup_class cn = find (\<lambda>c. cls_name c = cn) program_classes"

text \<open>Python binds the arguments of a call to the parameters after \<^verbatim>\<open>self\<close>.\<close>

fun apply_method :: "pymethod \<Rightarrow> addr \<Rightarrow> pyval list \<Rightarrow> state \<Rightarrow> result \<times> state" where
  "apply_method (Method0 f) self [] s = f self s"
| "apply_method (Method1 f) self [a] s = f self a s"
| "apply_method m self args s = (Inl (TypeError ''wrong number of arguments''), s)"

text \<open>
  What the two classes inherit from outside the source. Both descend from comtypes'
  \<^verbatim>\<open>COMObject\<close>, whose method \<^verbatim>\<open>QueryInterface\<close> the source itself calls (line 33).
  \<^verbatim>\<open>MyServerImpl\<close> also descends from the coclass \<^verbatim>\<open>MyServer\<close> of the type library; the
  wrapper comtypes generates for a coclass gives it the attributes named below, among
  them its CLSID, \<^verbatim>\<open>_reg_clsid_\<close>. Their values are in the type library, so only the names
  are kept. \<^verbatim>\<open>comtypes.CoClass\<close> supplies no such attribute. Further members of comtypes'
  base classes are not modelled.
\<close>

definition inherited_methods :: "(string \<times> pymethod) list" where
  "inherited_methods = [(''QueryInterface'', Method1 QueryInterface)]"

definition base_class_attrs :: "string \<Rightarrow> string list" where
  "base_class_attrs b =
     (if b = ''MyInterfaces.MyServer''
      then [''_reg_clsid_'', ''_idlflags_'', ''_typelib_path_'', ''_reg_typelib_'',
            ''_com_interfaces_'']
      else [])"

text \<open>The attributes of a class that are not methods: those of its body, then the inherited.\<close>

definition class_attr_names :: "pyclass \<Rightarrow> string list" where
  "class_attr_names c = map fst (cls_attrs c) @ base_class_attrs (cls_base c)"

text \<open>
  \<^verbatim>\<open>obj.m(args)\<close>: the name is looked up in the class of the object, first among the
  methods of the class body, then among its other attributes and those of its base class
  (calling one of these raises \<^verbatim>\<open>TypeError\<close>: none is callable), then among the inherited
  methods; a name found nowhere raises \<^verbatim>\<open>AttributeError\<close>. No statement of the program
  stores an attribute on an object, so the object's own dictionary is not consulted.
\<close>

definition invoke :: "addr \<Rightarrow> string \<Rightarrow> pyval list \<Rightarrow> state \<Rightarrow> result \<times> state" where
  "invoke self m args s =
     (case deref self s of
        None \<Rightarrow> (Inl (COMError ''E_POINTER''), s)
      | Some ob \<Rightarrow>
          (case lookup_class (obj_class ob) of
             None \<Rightarrow> (Inl (AttributeError m), s)
           | Some c \<Rightarrow>
               (case map_of (cls_methods c) m of
                  Some f \<Rightarrow> apply_method f self args s
                | None \<Rightarrow>
                    (if m \<in> set (class_attr_names c)
                     then (Inl (TypeError ''object is not callable''), s)
                     else
                       (case map_of inherited_methods m of
                          Some f \<Rightarrow> apply_method f self args s
                        | None \<Rightarrow> (Inl (AttributeError m), s))))))"

datatype call = Call addr string "pyval list"

text \<open>A sequence of calls, one after the other; an exception ends one call, not the run.\<close>

fun run :: "call list \<Rightarrow> state \<Rightarrow> result list \<times> state" where
  "run [] s = ([], s)"
| "run (Call a m args # cs) s =
     (case invoke a m args s of
        (r, s1) \<Rightarrow> (case run cs s1 of (rs, s2) \<Rightarrow> (r # rs, s2)))"

subsection \<open>Versions as packaging compares them\<close>

text \<open>
  A version as \<^verbatim>\<open>packaging.version.parse\<close> yields it: epoch, release numbers (at least one,
  so the first is kept apart), pre-release (\<^verbatim>\<open>a\<close>, \<^verbatim>\<open>b\<close> or \<^verbatim>\<open>rc\<close> with a number), post-release,
  development release and local segments. 1.4.9rc1 has release 1, 4, 9 and pre-release
  \<open>(RC, 1)\<close>; 1.4.9.dev0 has development release 0.
\<close>

datatype pre_letter = Alpha | Beta | RC

datatype local_segment = LocalNum nat | LocalStr string

record version =
  epoch :: nat
  release_first :: nat
  release_rest :: "nat list"
  pre :: "(pre_letter \<times> nat) option"
  post :: "nat option"
  dev :: "nat option"
  local_segments :: "local_segment list option"

definition release :: "version \<Rightarrow> nat list" where
  "release v = release_first v # release_rest v"

text \<open>
  \<^verbatim>\<open>Version.__lt__\<close> compares the keys that \<^verbatim>\<open>_cmpkey\<close> builds, as tuples: the epoch; the
  release without its trailing zeros; the pre-release, or minus infinity for a
  development release that is neither a pre- nor a post-release, or plus infinity for no
  pre-release; the post-release, or minus infinity; the development release, or plus
  infinity; the local segments, or minus infinity. Python compares tuples at the first
  position where they differ; a shorter tuple that is a prefix of the other is smaller.
\<close>

datatype ordering = LT | EQ | GT

datatype 'a bounded = NegativeInfinity | Finite 'a | Infinity

definition cmp_nat :: "nat \<Rightarrow> nat \<Rightarrow> ordering" where
  "cmp_nat a b = (if a < b then LT else if a = b then EQ else GT)"

definition then_cmp :: "ordering \<Rightarrow> ordering \<Rightarrow> ordering" where
  "then_cmp a b = (case a of EQ \<Rightarrow> b | _ \<Rightarrow> a)"

fun cmp_tuple :: "('a \<Rightarrow> 'a \<Rightarrow> ordering) \<Rightarrow> 'a list \<Rightarrow> 'a list \<Rightarrow> ordering" where
  "cmp_tuple c [] [] = EQ"
| "cmp_tuple c [] (y # ys) = LT"
| "cmp_tuple c (x # xs) [] = GT"
| "cmp_tuple c (x # xs) (y # ys) = then_cmp (c x y) (cmp_tuple c xs ys)"

fun cmp_bounded :: "('a \<Rightarrow> 'a \<Rightarrow> ordering) \<Rightarrow> 'a bounded \<Rightarrow> 'a bounded \<Rightarrow> ordering" where
  "cmp_bounded c NegativeInfinity NegativeInfinity = EQ"
| "cmp_bounded c NegativeInfinity y = LT"
| "cmp_bounded c x NegativeInfinity = GT"
| "cmp_bounded c Infinity Infinity = EQ"
| "cmp_bounded c Infinity y = GT"
| "cmp_bounded c x Infinity = LT"
| "cmp_bounded c (Finite x) (Finite y) = c x y"

text \<open>The letters compare as the strings \<^verbatim>\<open>"a" < "b" < "rc"\<close>.\<close>

definition letter_rank :: "pre_letter \<Rightarrow> nat" where
  "letter_rank l = (case l of Alpha \<Rightarrow> 0 | Beta \<Rightarrow> 1 | RC \<Rightarrow> 2)"

definition cmp_pre :: "pre_letter \<times> nat \<Rightarrow> pre_letter \<times> nat \<Rightarrow> ordering" where
  "cmp_pre p q =
     then_cmp (cmp_nat (letter_rank (fst p)) (letter_rank (fst q))) (cmp_nat (snd p) (snd q))"

text \<open>
  A numeric local segment is the pair \<^verbatim>\<open>(i, "")\<close>, a string one \<^verbatim>\<open>(NegativeInfinity, s)\<close>:
  strings sort before numbers, numbers by value, strings by their characters.
\<close>

fun cmp_local :: "local_segment \<Rightarrow> local_segment \<Rightarrow> ordering" where
  "cmp_local (LocalNum i) (LocalNum j) = cmp_nat i j"
| "cmp_local (LocalStr s) (LocalNum j) = LT"
| "cmp_local (LocalNum i) (LocalStr t) = GT"
| "cmp_local (LocalStr s) (LocalStr t) =
     cmp_tuple cmp_nat (map of_char s) (map of_char t)"

definition strip_zeros :: "nat list \<Rightarrow> nat list" where
  "strip_zeros r = rev (dropWhile (\<lambda>x. x = 0) (rev r))"

definition key_pre :: "version \<Rightarrow> (pre_letter \<times> nat) bounded" where
  "key_pre v =
     (if pre v = None \<and> post v = None \<and> dev v \<noteq> None then NegativeInfinity
      else (case pre v of None \<Rightarrow> Infinity | Some p \<Rightarrow> Finite p))"

definition key_post :: "version \<Rightarrow> nat bounded" where
  "key_post v = (case post v of None \<Rightarrow> NegativeInfinity | Some n \<Rightarrow> Finite n)"

definition key_dev :: "version \<Rightarrow> nat bounded" where
  "key_dev v = (case dev v of None \<Rightarrow> Infinity | Some n \<Rightarrow> Finite n)"

definition key_local :: "version \<Rightarrow> local_segment list bounded" where
  "key_local v = (case local_segments v of None \<Rightarrow> NegativeInfinity | Some l \<Rightarrow> Finite l)"

definition version_cmp :: "version \<Rightarrow> version \<Rightarrow> ordering" where
  "version_cmp a b =
     then_cmp (cmp_nat (epoch a) (epoch b))
    (then_cmp (cmp_tuple cmp_nat (strip_zeros (release a)) (strip_zeros (release b)))
    (then_cmp (cmp_bounded cmp_pre (key_pre a) (key_pre b))
    (then_cmp (cmp_bounded cmp_nat (key_post a) (key_post b))
    (then_cmp (cmp_bounded cmp_nat (key_dev a) (key_dev b))
              (cmp_bounded (cmp_tuple cmp_local) (key_local a) (key_local b))))))"

definition version_lt :: "version \<Rightarrow> version \<Rightarrow> bool" where
  "version_lt a b = (version_cmp a b = LT)"

text \<open>A final release: numbers only, as in 1.4.9.\<close>

definition final_release :: "nat \<Rightarrow> nat list \<Rightarrow> version" where
  "final_release n ns =
     \<lparr>epoch = 0, release_first = n, release_rest = ns,
      pre = None, post = None, dev = None, local_segments = None\<rparr>"

text \<open>\<^verbatim>\<open>parse("1.4.9")\<close>\<close>

definition minimum_version :: version where
  "minimum_version = final_release 1 [4, 9]"

subsection \<open>The module body\<close>

text \<open>
  What the module meets in its environment: the modules that cannot be imported; what
  \<^verbatim>\<open>packaging.version.parse\<close> makes of \<^verbatim>\<open>comtypes.__version__\<close> (\<open>None\<close> when the string is not
  a version); whether \<^verbatim>\<open>comtypes.client.GetModule\<close> can load the type library; and the
  command line, \<^verbatim>\<open>sys.argv\<close>.
\<close>

record env =
  missing_modules :: "string list"
  comtypes_version :: "version option"
  typelib_loads :: bool
  sys_argv :: "string list"

definition import_module :: "env \<Rightarrow> string \<Rightarrow> result" where
  "import_module env m =
     (if m \<in> set (missing_modules env) then Inl (ModuleNotFoundError m)
      else Inr (PyModule m))"

definition parse :: "version option \<Rightarrow> exn + version" where
  "parse p = (case p of None \<Rightarrow> Inl InvalidVersion | Some v \<Rightarrow> Inr v)"

text \<open>
  The calls into comtypes that reach outside the program, in the order they are made.
  \<^verbatim>\<open>UseCommandLine\<close> is given the classes and finds the command line in \<^verbatim>\<open>sys.argv\<close>.
\<close>

datatype event =
    Ev_GetModule string
  | Ev_UseCommandLine "string list" "string list"

definition tlb_path :: string where
  "tlb_path = ''../x64/Debug/MyInterfaces.tlb''"

definition GetModule :: "env \<Rightarrow> string \<Rightarrow> result" where
  "GetModule env path =
     (if typelib_loads env then Inr (PyTypeLib path) else Inl (OSError path))"

text \<open>The names the module has bound once its last class statement has run.\<close>

definition module_globals :: "pyval \<Rightarrow> (string \<times> pyval) list" where
  "module_globals typelib =
     [(''comtypes'', PyModule ''comtypes''),
      (''parse'', PyFunction ''packaging.version.parse''),
      (''MyInterfaces'', typelib),
      (''NumberCruncher'', PyClass ''NumberCruncher''),
      (''MyServerImpl'', PyClass ''MyServerImpl'')]"

text \<open>
  The module body, top to bottom; \<open>name\<close> is the value of \<^verbatim>\<open>__name__\<close>. It yields the
  exception that ended it or the namespace it built, and the trace of its calls into
  comtypes. Lines 1, 2 and 8 import; line 9 parses and compares the versions; line 10
  raises; line 13 loads the type library; lines 16 to 39 define the classes; lines 43
  and 44, under \<^verbatim>\<open>__main__\<close> only, import \<^verbatim>\<open>UseCommandLine\<close> and call it with \<^verbatim>\<open>MyServerImpl\<close>.
\<close>

definition module_exec :: "env \<Rightarrow> string \<Rightarrow> (exn + (string \<times> pyval) list) \<times> event list" where
  "module_exec env name =
     (case import_module env ''comtypes.client'' of
        Inl e \<Rightarrow> (Inl e, [])
      | Inr m1 \<Rightarrow>
     (case import_module env ''comtypes.server.localserver'' of
        Inl e \<Rightarrow> (Inl e, [])
      | Inr m2 \<Rightarrow>
     (case import_module env ''packaging.version'' of
        Inl e \<Rightarrow> (Inl e, [])
      | Inr m3 \<Rightarrow>
     (case parse (comtypes_version env) of
        Inl e \<Rightarrow> (Inl e, [])
      | Inr v \<Rightarrow>
          if version_lt v minimum_version
          then (Inl (ImportError
                  ''comtypes 1.4.9 or newer required due to https://github.com/enthought/comtypes/pull/678''),
                [])
          else
            (case GetModule env tlb_path of
               Inl e \<Rightarrow> (Inl e, [Ev_GetModule tlb_path])
             | Inr MyInterfaces \<Rightarrow>
                 (let g = module_globals MyInterfaces in
                  if name = ''__main__''
                  then
                    (case import_module env ''comtypes.server.register'' of
                       Inl e \<Rightarrow> (Inl e, [Ev_GetModule tlb_path])
                     | Inr m4 \<Rightarrow>
                         (Inr (g @ [(''UseCommandLine'',
                                    PyFunction ''comtypes.server.register.UseCommandLine'')]),
                          [Ev_GetModule tlb_path,
                           Ev_UseCommandLine [cls_name MyServerImpl] (sys_argv env)]))
                  else (Inr g, [Ev_GetModule tlb_path])))))))"

text \<open>
  The state in which clients call the server: the namespace of the module after its
  body has run, and whatever objects exist by then.
\<close>

definition module_state :: "pyobj list \<Rightarrow> state" where
  "module_state h = \<lparr>heap = h, globals = module_globals (PyTypeLib tlb_path)\<rparr>"

subsection \<open>What comtypes does with the command line\<close>

text \<open>
  \<^verbatim>\<open>UseCommandLine\<close> belongs to comtypes, not to the source. Line 44 says what the program
  expects of it: it "will parse /regserver and /unregserver arguments". The model is that
  contract, on the set of class names registered with COM: the arguments after the
  program name are read in order, \<^verbatim>\<open>/regserver\<close> registers the classes it was given,
  \<^verbatim>\<open>/unregserver\<close> unregisters them, any other argument leaves the registrations alone.
  Whatever else \<^verbatim>\<open>UseCommandLine\<close> does (serving the classes, logging) is left out.
\<close>

fun parse_arguments :: "string list \<Rightarrow> string list \<Rightarrow> string set \<Rightarrow> string set" where
  "parse_arguments classes [] reg = reg"
| "parse_arguments classes (a # as) reg =
     parse_arguments classes as
       (if a = ''/regserver'' then reg \<union> set classes
        else if a = ''/unregserver'' then reg - set classes
        else reg)"

definition UseCommandLine :: "string list \<Rightarrow> string list \<Rightarrow> string set \<Rightarrow> string set" where
  "UseCommandLine classes argv reg = parse_arguments classes (tl argv) reg"

text \<open>The registrations after comtypes has served the calls of a trace.\<close>

fun comtypes_effect :: "event list \<Rightarrow> string set \<Rightarrow> string set" where
  "comtypes_effect [] reg = reg"
| "comtypes_effect (Ev_GetModule p # es) reg = comtypes_effect es reg"
| "comtypes_effect (Ev_UseCommandLine cs argv # es) reg =
     comtypes_effect es (UseCommandLine cs argv reg)"

subsection \<open>Notions the properties are stated with\<close>

text \<open>\<^verbatim>\<open>except ImportError\<close> catches an \<^verbatim>\<open>ImportError\<close> and its subclass.\<close>

fun is_ImportError :: "exn \<Rightarrow> bool" where
  "is_ImportError (ImportError msg) = True"
| "is_ImportError (ModuleNotFoundError m) = True"
| "is_ImportError e = False"

text \<open>The modules that lines 1, 2 and 8 import.\<close>

definition imported_modules :: "string list" where
  "imported_modules = [''comtypes.client'', ''comtypes.server.localserver'', ''packaging.version'']"

definition imports_succeed :: "env \<Rightarrow> bool" where
  "imports_succeed env = (set imported_modules \<inter> set (missing_modules env) = {})"

text \<open>The classes a trace hands to \<^verbatim>\<open>UseCommandLine\<close>.\<close>

fun registered :: "event list \<Rightarrow> string list" where
  "registered [] = []"
| "registered (Ev_UseCommandLine cs argv # es) = cs @ registered es"
| "registered (Ev_GetModule p # es) = registered es"

text \<open>The type libraries a trace loads.\<close>

fun loaded :: "event list \<Rightarrow> string list" where
  "loaded [] = []"
| "loaded (Ev_GetModule p # es) = p # loaded es"
| "loaded (Ev_UseCommandLine cs argv # es) = loaded es"

text \<open>
  comtypes reads a class's registry entries from the attributes whose names begin with
  \<^verbatim>\<open>_reg\<close> (\<^verbatim>\<open>_reg_clsid_\<close>, \<^verbatim>\<open>_reg_threading_\<close>, \<^verbatim>\<open>_reg_desc_\<close>, \<^verbatim>\<open>_reg_clsctx_\<close>, \<^verbatim>\<open>_regcls_\<close>, ...).
\<close>

definition is_registry_attr :: "string \<Rightarrow> bool" where
  "is_registry_attr n = (take 4 n = ''_reg'')"

definition registry_attrs :: "pyclass \<Rightarrow> string list" where
  "registry_attrs c = filter is_registry_attr (map fst (cls_attrs c))"

text \<open>A class has a CLSID when its body or its base class sets \<^verbatim>\<open>_reg_clsid_\<close>.\<close>

definition has_clsid :: "pyclass \<Rightarrow> bool" where
  "has_clsid c = (''_reg_clsid_'' \<in> set (class_attr_names c))"

text \<open>Every method a class of the program defines, with the name of its class.\<close>

definition exposed_methods :: "(string \<times> string \<times> pymethod) list" where
  "exposed_methods =
     concat (map (\<lambda>c. map (\<lambda>(n, f). (cls_name c, n, f)) (cls_methods c)) program_classes)"

text \<open>
  A method returns a constant when every call returns the same value, not \<^verbatim>\<open>None\<close>, and
  leaves the state as it was; it is a no-op when every call returns \<^verbatim>\<open>None\<close> and leaves
  the state as it was.
\<close>

definition returns_constant :: "pymethod \<Rightarrow> bool" where
  "returns_constant m =
     (\<exists>v. v \<noteq> PyNone \<and>
        (case m of
           Method0 f \<Rightarrow> (\<forall>self s. f self s = (Inr v, s))
         | Method1 f \<Rightarrow> (\<forall>self a s. f self a s = (Inr v, s))))"

definition is_noop :: "pymethod \<Rightarrow> bool" where
  "is_noop m =
     (case m of
        Method0 f \<Rightarrow> (\<forall>self s. f self s = (Inr PyNone, s))
      | Method1 f \<Rightarrow> (\<forall>self a s. f self a s = (Inr PyNone, s)))"

text \<open>
  "Older than 1.4.9", read off the version. The number at a position is 0 where the
  release has none. A version without epoch is older when its numbers read lower than
  1, 4, 9 from the left, or when they read 1.4.9 and the version is a pre-release of it
  or a development release of it: 1.4.9rc1 and 1.4.9.dev0 are older than 1.4.9, while
  1.4.9.post1 and 1.4.9.post1.dev0 are not.
\<close>

definition component :: "nat list \<Rightarrow> nat \<Rightarrow> nat" where
  "component r i = (if i < length r then r ! i else 0)"

definition numbers_lower :: "nat list \<Rightarrow> bool" where
  "numbers_lower r =
     (component r 0 < 1 \<or>
      (component r 0 = 1 \<and>
         (component r 1 < 4 \<or> (component r 1 = 4 \<and> component r 2 < 9))))"

definition numbers_equal :: "nat list \<Rightarrow> bool" where
  "numbers_equal r =
     (component r 0 = 1 \<and> component r 1 = 4 \<and> component r 2 = 9 \<and> set (drop 3 r) \<subseteq> {0})"

definition older_than_1_4_9 :: "version \<Rightarrow> bool" where
  "older_than_1_4_9 v =
     (epoch v = 0 \<and>
      (numbers_lower (release v) \<or>
       (numbers_equal (release v) \<and>
          (pre v \<noteq> None \<or> (post v = None \<and> dev v \<noteq> None)))))"

section \<open>Properties\<close>

subsection \<open>The float literal\<close>

text \<open>
  The 64 bits of \<open>float_3_14\<close> denote 7070651414971679 / 2^51. Binary64 numbers between
  2 and 4 are 2^-51 apart, and this one lies less than half that distance from 314/100:
  it is the float Python reads the literal \<^verbatim>\<open>3.14\<close> as.
\<close>

lemma float_3_14_value: "double_value float_3_14 = Some (7070651414971679 / 2 ^ 51)"
  by (simp add: double_value_def float_3_14_def Let_def mask_eq_exp_minus_1 drop_bit_eq_div)

lemma float_3_14_nearest: "\<bar>7070651414971679 / 2 ^ 51 - (314 / 100 :: rat)\<bar> < 1 / 2 ^ 52"
  by simp

subsection \<open>Dispatch\<close>

lemma lookup_class_cases:
  "lookup_class cn =
     (if cn = ''NumberCruncher'' then Some NumberCruncher
      else if cn = ''MyServerImpl'' then Some MyServerImpl else None)"
  by (simp add: lookup_class_def program_classes_def NumberCruncher_def MyServerImpl_def)

lemma apply_method_cases:
  "apply_method f self args s =
     (case f of
        Method0 g \<Rightarrow> (if args = [] then g self s
                      else (Inl (TypeError ''wrong number of arguments''), s))
      | Method1 g \<Rightarrow> (case args of [a] \<Rightarrow> g self a s
                      | _ \<Rightarrow> (Inl (TypeError ''wrong number of arguments''), s)))"
  by (cases "(f, self, args, s)" rule: apply_method.cases) (simp_all split: pymethod.split)

lemma methods_NumberCruncher:
  "map_of (cls_methods NumberCruncher) m =
     (if m = ''ComputePi'' then Some (Method0 ComputePi) else None)"
  by (simp add: NumberCruncher_def)

lemma methods_MyServerImpl:
  "map_of (cls_methods MyServerImpl) m =
     (if m = ''GetNumberCruncher'' then Some (Method0 GetNumberCruncher)
      else if m = ''Subscribe'' then Some (Method1 Subscribe)
      else if m = ''Unsubscribe'' then Some (Method1 Unsubscribe)
      else None)"
  by (simp add: MyServerImpl_def)

lemma attrs_NumberCruncher: "class_attr_names NumberCruncher = [''_com_interfaces_'']"
  by (simp add: class_attr_names_def NumberCruncher_def NumberCruncher_attrs_def
      base_class_attrs_def)

lemma attrs_MyServerImpl:
  "class_attr_names MyServerImpl =
     [''_reg_threading_'', ''_reg_desc_'', ''_reg_clsctx_'', ''_regcls_'',
      ''_reg_clsid_'', ''_idlflags_'', ''_typelib_path_'', ''_reg_typelib_'',
      ''_com_interfaces_'']"
  by (simp add: class_attr_names_def MyServerImpl_def MyServerImpl_attrs_def
      base_class_attrs_def)

lemma invoke_NumberCruncher:
  assumes "deref a s = Some ob" and "obj_class ob = ''NumberCruncher''"
  shows "invoke a m args s =
           (if m = ''ComputePi''
            then (if args = [] then ComputePi a s
                  else (Inl (TypeError ''wrong number of arguments''), s))
            else if m = ''_com_interfaces_''
            then (Inl (TypeError ''object is not callable''), s)
            else if m = ''QueryInterface''
            then (case args of [i] \<Rightarrow> QueryInterface a i s
                  | _ \<Rightarrow> (Inl (TypeError ''wrong number of arguments''), s))
            else (Inl (AttributeError m), s))"
  using assms
  by (simp add: invoke_def lookup_class_cases methods_NumberCruncher apply_method_cases
      attrs_NumberCruncher inherited_methods_def)

lemma invoke_MyServerImpl:
  assumes "deref a s = Some ob" and "obj_class ob = ''MyServerImpl''"
  shows "invoke a m args s =
           (if m = ''GetNumberCruncher''
            then (if args = [] then GetNumberCruncher a s
                  else (Inl (TypeError ''wrong number of arguments''), s))
            else if m = ''Subscribe''
            then (case args of [c] \<Rightarrow> Subscribe a c s
                  | _ \<Rightarrow> (Inl (TypeError ''wrong number of arguments''), s))
            else if m = ''Unsubscribe''
            then (case args of [c] \<Rightarrow> Unsubscribe a c s
                  | _ \<Rightarrow> (Inl (TypeError ''wrong number of arguments''), s))
            else if m \<in> set [''_reg_threading_'', ''_reg_desc_'', ''_reg_clsctx_'', ''_regcls_'',
                   ''_reg_clsid_'', ''_idlflags_'', ''_typelib_path_'', ''_reg_typelib_'',
                   ''_com_interfaces_'']
            then (Inl (TypeError ''object is not callable''), s)
            else if m = ''QueryInterface''
            then (case args of [i] \<Rightarrow> QueryInterface a i s
                  | _ \<Rightarrow> (Inl (TypeError ''wrong number of arguments''), s))
            else (Inl (AttributeError m), s))"
  using assms
  by (simp add: invoke_def lookup_class_cases methods_MyServerImpl apply_method_cases
      attrs_MyServerImpl inherited_methods_def)

lemma invoke_other:
  assumes "deref a s = None \<or> (\<exists>ob. deref a s = Some ob \<and>
             obj_class ob \<noteq> ''NumberCruncher'' \<and> obj_class ob \<noteq> ''MyServerImpl'')"
  shows "snd (invoke a m args s) = s"
  using assms by (auto simp: invoke_def lookup_class_cases)

subsection \<open>What a call leaves unchanged\<close>

lemma QueryInterface_state: "snd (QueryInterface self i s) = s"
  by (simp add: QueryInterface_def split: pyval.split option.split attr.split)

lemma GetNumberCruncher_globals: "globals (snd (GetNumberCruncher self s)) = globals s"
  by (auto simp: GetNumberCruncher_def load_global_def instantiate_def QueryInterface_state
      split: option.split sum.split pyval.split prod.split)

lemma GetNumberCruncher_heap:
  "take (length (heap s)) (heap (snd (GetNumberCruncher self s))) = heap s"
  by (auto simp: GetNumberCruncher_def load_global_def instantiate_def QueryInterface_state
      split: option.split sum.split pyval.split prod.split)

lemma invoke_state_cases:
  "snd (invoke a m args s) = s \<or>
   (m = ''GetNumberCruncher'' \<and> args = [] \<and>
    (\<exists>ob. deref a s = Some ob \<and> obj_class ob = ''MyServerImpl'') \<and>
    snd (invoke a m args s) = snd (GetNumberCruncher a s))"
proof (cases "deref a s")
  case None
  then show ?thesis by (simp add: invoke_other)
next
  case (Some ob)
  consider "obj_class ob = ''NumberCruncher''" | "obj_class ob = ''MyServerImpl''"
    | "obj_class ob \<noteq> ''NumberCruncher'' \<and> obj_class ob \<noteq> ''MyServerImpl''"
    by blast
  then show ?thesis
  proof cases
    case 1
    with Some show ?thesis
      by (simp add: invoke_NumberCruncher ComputePi_def QueryInterface_state split: list.split)
  next
    case 2
    with Some show ?thesis
      by (simp add: invoke_MyServerImpl Subscribe_def Unsubscribe_def QueryInterface_state
          split: list.split)
  next
    case 3
    with Some show ?thesis by (simp add: invoke_other)
  qed
qed

lemma invoke_globals: "globals (snd (invoke a m args s)) = globals s"
  using invoke_state_cases [of a m args s] by (auto simp: GetNumberCruncher_globals)

lemma invoke_heap: "take (length (heap s)) (heap (snd (invoke a m args s))) = heap s"
  using invoke_state_cases [of a m args s] by (auto simp: GetNumberCruncher_heap)

lemma take_all_prefix:
  assumes "take (length xs) ys = xs"
  shows "length xs \<le> length ys" and "i < length xs \<Longrightarrow> ys ! i = xs ! i"
proof -
  show "length xs \<le> length ys"
    using assms by (metis length_take min_def nat_le_linear)
  show "i < length xs \<Longrightarrow> ys ! i = xs ! i"
    using assms by (metis nth_take)
qed

lemma run_globals: "globals (snd (run cs s)) = globals s"
proof (induction cs arbitrary: s)
  case Nil
  show ?case by simp
next
  case (Cons c cs)
  obtain a m args where c: "c = Call a m args" by (cases c)
  have "snd (run (c # cs) s) = snd (run cs (snd (invoke a m args s)))"
    by (simp add: c split: prod.split)
  then show ?case by (simp add: Cons.IH invoke_globals)
qed

lemma run_heap: "take (length (heap s)) (heap (snd (run cs s))) = heap s"
proof (induction cs arbitrary: s)
  case Nil
  show ?case by simp
next
  case (Cons c cs)
  obtain a m args where c: "c = Call a m args" by (cases c)
  let ?s1 = "snd (invoke a m args s)"
  have step: "snd (run (c # cs) s) = snd (run cs ?s1)"
    by (simp add: c split: prod.split)
  have h1: "take (length (heap s)) (heap ?s1) = heap s" by (rule invoke_heap)
  have h2: "take (length (heap ?s1)) (heap (snd (run cs ?s1))) = heap ?s1" by (rule Cons.IH)
  have le: "length (heap s) \<le> length (heap ?s1)" using h1 by (rule take_all_prefix(1))
  have "take (length (heap s)) (heap (snd (run cs ?s1)))
        = take (length (heap s)) (take (length (heap ?s1)) (heap (snd (run cs ?s1))))"
    using le by (simp add: min_def)
  also have "\<dots> = heap s" by (simp only: h2 h1)
  finally show ?case by (simp only: step)
qed

lemma run_deref:
  assumes "deref a s = Some ob"
  shows "deref a (snd (run cs s)) = Some ob"
proof -
  have a: "a < length (heap s)" and ob: "heap s ! a = ob"
    using assms by (auto simp: deref_def split: if_splits)
  have t: "take (length (heap s)) (heap (snd (run cs s))) = heap s" by (rule run_heap)
  have "a < length (heap (snd (run cs s)))"
    using a take_all_prefix(1) [OF t] by simp
  moreover have "heap (snd (run cs s)) ! a = ob"
    using take_all_prefix(2) [OF t a] ob by simp
  ultimately show ?thesis by (simp add: deref_def)
qed

subsection \<open>ComputePi\<close>

text \<open>
  C1: \<^verbatim>\<open>NumberCruncher.ComputePi\<close> takes no argument and returns the constant 3.14 on
  every call, whatever the state and whatever calls came before. The method itself
  returns the float of the literal and the state it was given; called on a
  \<^verbatim>\<open>NumberCruncher\<close> object after any sequence of calls \<open>cs\<close>, it returns that float and
  changes nothing; called with an argument it raises \<^verbatim>\<open>TypeError\<close>; and the float is the
  binary64 number nearest to 314/100.
\<close>

theorem ComputePi_returns_3_14:
  assumes "deref a s = Some ob" and "obj_class ob = ''NumberCruncher''"
  shows "ComputePi self t = (Inr (PyFloat float_3_14), t) \<and>
         invoke a ''ComputePi'' [] (snd (run cs s)) =
           (Inr (PyFloat float_3_14), snd (run cs s)) \<and>
         invoke a ''ComputePi'' (x # xs) s =
           (Inl (TypeError ''wrong number of arguments''), s) \<and>
         (\<exists>q. double_value float_3_14 = Some q \<and> \<bar>q - 314 / 100\<bar> < 1 / 2 ^ 52)"
proof -
  have direct: "ComputePi self t = (Inr (PyFloat float_3_14), t)"
    by (simp add: ComputePi_def)
  have later: "deref a (snd (run cs s)) = Some ob"
    using assms(1) by (rule run_deref)
  have after: "invoke a ''ComputePi'' [] (snd (run cs s)) =
                 (Inr (PyFloat float_3_14), snd (run cs s))"
    by (simp add: invoke_NumberCruncher [OF later assms(2)] ComputePi_def)
  have arity: "invoke a ''ComputePi'' (x # xs) s =
                 (Inl (TypeError ''wrong number of arguments''), s)"
    by (simp add: invoke_NumberCruncher [OF assms])
  have literal: "\<exists>q. double_value float_3_14 = Some q \<and> \<bar>q - 314 / 100\<bar> < 1 / 2 ^ 52"
    using float_3_14_value float_3_14_nearest by blast
  from direct after arity literal show ?thesis by blast
qed

text \<open>
  The theorem at a state with one \<^verbatim>\<open>NumberCruncher\<close> object, after a good and a bad call.
\<close>

theorem ComputePi_returns_3_14_witness:
  "deref 0 (module_state [\<lparr>obj_class = ''NumberCruncher'', obj_dict = []\<rparr>]) =
     Some \<lparr>obj_class = ''NumberCruncher'', obj_dict = []\<rparr> \<and>
   invoke 0 ''ComputePi'' []
     (snd (run [Call 0 ''ComputePi'' [], Call 0 ''ComputePi'' [PyNone]]
        (module_state [\<lparr>obj_class = ''NumberCruncher'', obj_dict = []\<rparr>]))) =
     (Inr (PyFloat float_3_14),
      snd (run [Call 0 ''ComputePi'' [], Call 0 ''ComputePi'' [PyNone]]
        (module_state [\<lparr>obj_class = ''NumberCruncher'', obj_dict = []\<rparr>])))"
proof -
  let ?ob = "\<lparr>obj_class = ''NumberCruncher'', obj_dict = []\<rparr>"
  have h1: "deref 0 (module_state [?ob]) = Some ?ob"
    by (simp add: deref_def module_state_def)
  have h2: "obj_class ?ob = ''NumberCruncher''" by simp
  from ComputePi_returns_3_14 [OF h1 h2] h1 show ?thesis by blast
qed

subsection \<open>Subscribe and Unsubscribe\<close>

text \<open>
  C2: for every client argument, \<^verbatim>\<open>MyServerImpl.Subscribe\<close> and
  \<^verbatim>\<open>MyServerImpl.Unsubscribe\<close> return \<^verbatim>\<open>None\<close> and do nothing else: the state after the
  call is the state before it, for the methods themselves and for a call dispatched to
  a \<^verbatim>\<open>MyServerImpl\<close> object.
\<close>

theorem Subscribe_Unsubscribe_noop:
  assumes "deref a s = Some ob" and "obj_class ob = ''MyServerImpl''"
  shows "Subscribe self client t = (Inr PyNone, t) \<and>
         Unsubscribe self client t = (Inr PyNone, t) \<and>
         invoke a ''Subscribe'' [client] s = (Inr PyNone, s) \<and>
         invoke a ''Unsubscribe'' [client] s = (Inr PyNone, s)"
proof -
  have "Subscribe self client t = (Inr PyNone, t)" by (simp add: Subscribe_def)
  moreover have "Unsubscribe self client t = (Inr PyNone, t)" by (simp add: Unsubscribe_def)
  moreover have "invoke a ''Subscribe'' [client] s = (Inr PyNone, s)"
    by (simp add: invoke_MyServerImpl [OF assms] Subscribe_def)
  moreover have "invoke a ''Unsubscribe'' [client] s = (Inr PyNone, s)"
    by (simp add: invoke_MyServerImpl [OF assms] Unsubscribe_def)
  ultimately show ?thesis by blast
qed

text \<open>The theorem at a state with one \<^verbatim>\<open>MyServerImpl\<close> object and a client pointer.\<close>

theorem Subscribe_Unsubscribe_noop_witness:
  "deref 0 (module_state [\<lparr>obj_class = ''MyServerImpl'', obj_dict = []\<rparr>]) =
     Some \<lparr>obj_class = ''MyServerImpl'', obj_dict = []\<rparr> \<and>
   invoke 0 ''Subscribe'' [PyPointer ''IMyClient'' 7]
     (module_state [\<lparr>obj_class = ''MyServerImpl'', obj_dict = []\<rparr>]) =
     (Inr PyNone, module_state [\<lparr>obj_class = ''MyServerImpl'', obj_dict = []\<rparr>]) \<and>
   invoke 0 ''Unsubscribe'' [PyPointer ''IMyClient'' 7]
     (module_state [\<lparr>obj_class = ''MyServerImpl'', obj_dict = []\<rparr>]) =
     (Inr PyNone, module_state [\<lparr>obj_class = ''MyServerImpl'', obj_dict = []\<rparr>])"
proof -
  let ?ob = "\<lparr>obj_class = ''MyServerImpl'', obj_dict = []\<rparr>"
  have h1: "deref 0 (module_state [?ob]) = Some ?ob"
    by (simp add: deref_def module_state_def)
  have h2: "obj_class ?ob = ''MyServerImpl''" by simp
  from Subscribe_Unsubscribe_noop [OF h1 h2] h1 show ?thesis by blast
qed

subsection \<open>The version guard\<close>

text \<open>
  The comparison the module makes, \<^verbatim>\<open>parse(comtypes.__version__) < parse("1.4.9")\<close>, holds
  exactly for the versions that read as older than 1.4.9.
\<close>

lemma strip_zeros_Nil: "strip_zeros [] = []"
  by (simp add: strip_zeros_def)

lemma strip_zeros_Cons:
  "strip_zeros (x # xs) =
     (if x = 0 \<and> (\<forall>y\<in>set xs. y = 0) then [] else x # strip_zeros xs)"
  by (auto simp: strip_zeros_def dropWhile_append dropWhile_eq_Nil_conv)

lemma strip_zeros_eq_Nil: "strip_zeros xs = [] \<longleftrightarrow> (\<forall>y\<in>set xs. y = 0)"
  by (simp add: strip_zeros_def dropWhile_eq_Nil_conv)

lemma cmp_tuple_Nil2: "cmp_tuple c xs [] = (if xs = [] then EQ else GT)"
  by (cases xs) simp_all

lemma cmp_nat_cases:
  "cmp_nat a b = LT \<longleftrightarrow> a < b" "cmp_nat a b = EQ \<longleftrightarrow> a = b" "cmp_nat a b = GT \<longleftrightarrow> b < a"
  by (auto simp: cmp_nat_def)

lemma release_cmp_1_4_9:
  "cmp_tuple cmp_nat (strip_zeros r) [1, 4, 9] =
     (if numbers_lower r then LT else if numbers_equal r then EQ else GT)"
proof (cases r)
  case Nil
  then show ?thesis
    by (simp add: strip_zeros_Nil numbers_lower_def component_def)
next
  case r1: (Cons a t1)
  show ?thesis
  proof (cases t1)
    case Nil
    with r1 show ?thesis
      by (auto simp: strip_zeros_Cons strip_zeros_Nil numbers_lower_def numbers_equal_def
          component_def cmp_nat_def then_cmp_def)
  next
    case r2: (Cons b t2)
    show ?thesis
    proof (cases t2)
      case Nil
      with r1 r2 show ?thesis
        by (auto simp: strip_zeros_Cons strip_zeros_Nil numbers_lower_def numbers_equal_def
            component_def cmp_nat_def then_cmp_def)
    next
      case r3: (Cons c t3)
      have rest: "cmp_tuple cmp_nat (strip_zeros t3) [] = (if \<forall>y\<in>set t3. y = 0 then EQ else GT)"
        by (simp add: cmp_tuple_Nil2 strip_zeros_eq_Nil)
      from r1 r2 r3 show ?thesis
        by (auto simp: strip_zeros_Cons strip_zeros_Nil rest numbers_lower_def numbers_equal_def
            component_def cmp_nat_def then_cmp_def)
    qed
  qed
qed

lemma cmp_bounded_Infinity: "cmp_bounded c x Infinity = (if x = Infinity then EQ else LT)"
  by (cases x) simp_all

lemma cmp_bounded_NegativeInfinity:
  "cmp_bounded c x NegativeInfinity = (if x = NegativeInfinity then EQ else GT)"
  by (cases x) simp_all

lemma version_lt_1_4_9: "version_lt v minimum_version = older_than_1_4_9 v"
proof -
  have m: "epoch minimum_version = 0"
      "strip_zeros (release minimum_version) = [1, 4, 9]"
      "key_pre minimum_version = Infinity"
      "key_post minimum_version = NegativeInfinity"
      "key_dev minimum_version = Infinity"
      "key_local minimum_version = NegativeInfinity"
    by (simp_all add: minimum_version_def final_release_def release_def strip_zeros_Cons
        strip_zeros_Nil key_pre_def key_post_def key_dev_def key_local_def)
  have e: "cmp_nat (epoch v) 0 = (if epoch v = 0 then EQ else GT)"
    by (simp add: cmp_nat_def)
  show ?thesis
    unfolding version_lt_def version_cmp_def m e release_cmp_1_4_9 cmp_bounded_Infinity
      cmp_bounded_NegativeInfinity older_than_1_4_9_def
    by (auto simp: then_cmp_def key_pre_def key_post_def key_dev_def key_local_def
        numbers_lower_def numbers_equal_def split: option.splits if_splits)
qed

lemma version_order_examples:
  "older_than_1_4_9 (final_release 1 [4, 8])"
  "older_than_1_4_9 (final_release 1 [4])"
  "\<not> older_than_1_4_9 (final_release 1 [4, 9])"
  "\<not> older_than_1_4_9 (final_release 1 [4, 9, 0])"
  "\<not> older_than_1_4_9 (final_release 1 [4, 10])"
  "older_than_1_4_9 ((final_release 1 [4, 9])\<lparr>pre := Some (RC, 1)\<rparr>)"
  "older_than_1_4_9 ((final_release 1 [4, 9])\<lparr>dev := Some 0\<rparr>)"
  "\<not> older_than_1_4_9 ((final_release 1 [4, 9])\<lparr>post := Some 1\<rparr>)"
  "\<not> older_than_1_4_9 ((final_release 1 [4, 9])\<lparr>post := Some 1, dev := Some 0\<rparr>)"
  "\<not> older_than_1_4_9 ((final_release 1 [0])\<lparr>epoch := 1\<rparr>)"
  by (simp_all add: older_than_1_4_9_def final_release_def release_def numbers_lower_def
      numbers_equal_def component_def)

subsection \<open>What the module body does\<close>

lemma module_exec_cases:
  "module_exec env name =
     (if ''comtypes.client'' \<in> set (missing_modules env)
      then (Inl (ModuleNotFoundError ''comtypes.client''), [])
      else if ''comtypes.server.localserver'' \<in> set (missing_modules env)
      then (Inl (ModuleNotFoundError ''comtypes.server.localserver''), [])
      else if ''packaging.version'' \<in> set (missing_modules env)
      then (Inl (ModuleNotFoundError ''packaging.version''), [])
      else
        (case comtypes_version env of
           None \<Rightarrow> (Inl InvalidVersion, [])
         | Some v \<Rightarrow>
             if older_than_1_4_9 v
             then (Inl (ImportError
                ''comtypes 1.4.9 or newer required due to https://github.com/enthought/comtypes/pull/678''),
                   [])
             else if \<not> typelib_loads env
             then (Inl (OSError tlb_path), [Ev_GetModule tlb_path])
             else if name \<noteq> ''__main__''
             then (Inr (module_globals (PyTypeLib tlb_path)), [Ev_GetModule tlb_path])
             else if ''comtypes.server.register'' \<in> set (missing_modules env)
             then (Inl (ModuleNotFoundError ''comtypes.server.register''), [Ev_GetModule tlb_path])
             else (Inr (module_globals (PyTypeLib tlb_path) @
                        [(''UseCommandLine'',
                          PyFunction ''comtypes.server.register.UseCommandLine'')]),
                   [Ev_GetModule tlb_path,
                    Ev_UseCommandLine [''MyServerImpl''] (sys_argv env)])))"
  by (simp add: module_exec_def import_module_def parse_def version_lt_1_4_9 GetModule_def
      Let_def MyServerImpl_def split: option.split)

lemma imports_succeed_iff:
  "imports_succeed env \<longleftrightarrow>
     ''comtypes.client'' \<notin> set (missing_modules env) \<and>
     ''comtypes.server.localserver'' \<notin> set (missing_modules env) \<and>
     ''packaging.version'' \<notin> set (missing_modules env)"
  by (auto simp: imports_succeed_def imported_modules_def)

lemma registered_cases:
  "registered (snd (module_exec env name)) = [] \<or>
   registered (snd (module_exec env name)) = [''MyServerImpl'']"
  by (simp add: module_exec_cases split: option.split)

lemma module_exec_namespace:
  assumes "fst (module_exec env name) = Inr g"
  shows "map_of g ''NumberCruncher'' = Some (PyClass ''NumberCruncher'') \<and>
         map_of g ''MyInterfaces'' = Some (PyTypeLib tlb_path)"
  using assms
  by (auto simp: module_exec_cases module_globals_def split: if_splits option.splits)


subsection \<open>Calls, one after another\<close>

lemma QueryInterface_result:
  assumes "deref a s = deref a s'"
  shows "fst (QueryInterface a i s) = fst (QueryInterface a i s')"
  using assms
  by (simp add: QueryInterface_def split: pyval.split option.split attr.split)

lemma QueryInterface_pointer:
  assumes "fst (QueryInterface a x s) = Inr (PyPointer i p)"
  shows "p = a"
  using assms
  by (auto simp: QueryInterface_def split: pyval.splits option.splits attr.splits if_splits)

lemma invoke_result_indep:
  assumes d: "deref a s = deref a s'" and m: "m \<noteq> ''GetNumberCruncher''"
  shows "fst (invoke a m args s) = fst (invoke a m args s')"
proof (cases "deref a s")
  case None
  with d show ?thesis by (simp add: invoke_def)
next
  case (Some ob)
  with d have s': "deref a s' = Some ob" by simp
  have q: "\<And>i. fst (QueryInterface a i s) = fst (QueryInterface a i s')"
    using d by (rule QueryInterface_result)
  consider "obj_class ob = ''NumberCruncher''" | "obj_class ob = ''MyServerImpl''"
    | "obj_class ob \<noteq> ''NumberCruncher'' \<and> obj_class ob \<noteq> ''MyServerImpl''"
    by blast
  then show ?thesis
  proof cases
    case 1
    show ?thesis
      unfolding invoke_NumberCruncher [OF Some 1] invoke_NumberCruncher [OF s' 1]
      by (simp add: ComputePi_def q split: list.split)
  next
    case 2
    show ?thesis
      unfolding invoke_MyServerImpl [OF Some 2] invoke_MyServerImpl [OF s' 2]
      using m by (simp add: Subscribe_def Unsubscribe_def q split: list.split)
  next
    case 3
    with Some s' show ?thesis by (simp add: invoke_def lookup_class_cases)
  qed
qed

lemma GetNumberCruncher_pointer:
  assumes "fst (GetNumberCruncher self s) = Inr (PyPointer i p)"
  shows "p = length (heap s)"
  using assms
  by (auto simp: GetNumberCruncher_def load_global_def instantiate_def
      dest: QueryInterface_pointer split: option.splits sum.splits pyval.splits)

lemma invoke_pointer_cases:
  assumes "fst (invoke a m args s) = Inr (PyPointer i p)"
  shows "(m = ''GetNumberCruncher'' \<and> p = length (heap s) \<and>
          (\<exists>ob. deref a s = Some ob \<and> obj_class ob = ''MyServerImpl'')) \<or>
         (m = ''QueryInterface'' \<and> p = a)"
proof (cases "deref a s")
  case None
  with assms show ?thesis by (simp add: invoke_def)
next
  case (Some ob)
  consider "obj_class ob = ''NumberCruncher''" | "obj_class ob = ''MyServerImpl''"
    | "obj_class ob \<noteq> ''NumberCruncher'' \<and> obj_class ob \<noteq> ''MyServerImpl''"
    by blast
  then show ?thesis
  proof cases
    case 1
    from assms show ?thesis
      unfolding invoke_NumberCruncher [OF Some 1]
      by (auto simp: ComputePi_def dest: QueryInterface_pointer split: if_splits list.splits)
  next
    case 2
    from assms show ?thesis
      unfolding invoke_MyServerImpl [OF Some 2]
      by (auto simp: Subscribe_def Unsubscribe_def Some 2
          dest: QueryInterface_pointer GetNumberCruncher_pointer split: if_splits list.splits)
  next
    case 3
    with Some assms show ?thesis by (simp add: invoke_def lookup_class_cases)
  qed
qed

lemma GetNumberCruncher_result:
  assumes "map_of (globals s) ''NumberCruncher'' = Some (PyClass ''NumberCruncher'')"
    and "map_of (globals s) ''MyInterfaces'' = Some (PyTypeLib p)"
  shows "GetNumberCruncher self s =
           (Inr (PyPointer ''INumberCruncher'' (length (heap s))),
            s\<lparr>heap := heap s @ [\<lparr>obj_class = ''NumberCruncher'', obj_dict = []\<rparr>]\<rparr>)"
  using assms
  by (simp add: GetNumberCruncher_def load_global_def instantiate_def getattr_typelib_def
      typelib_names_def QueryInterface_def deref_def class_attrs_def NumberCruncher_attrs_def)

lemma GetNumberCruncher_after_import:
  "GetNumberCruncher self (module_state h) =
     (Inr (PyPointer ''INumberCruncher'' (length h)),
      module_state (h @ [\<lparr>obj_class = ''NumberCruncher'', obj_dict = []\<rparr>]))"
proof -
  have g: "map_of (globals (module_state h)) ''NumberCruncher'' = Some (PyClass ''NumberCruncher'')"
          "map_of (globals (module_state h)) ''MyInterfaces'' = Some (PyTypeLib tlb_path)"
    by (simp_all add: module_state_def module_globals_def)
  show ?thesis
    by (simp add: GetNumberCruncher_result [OF g]) (simp add: module_state_def)
qed

subsection \<open>No method changes what exists\<close>

text \<open>
  C4 as stated: for every method, \<^verbatim>\<open>GetNumberCruncher\<close> among them, the program state is
  identical before and after the call. After a call of \<^verbatim>\<open>GetNumberCruncher\<close> on a server
  object the heap holds one object more, so the statement is false.
\<close>

theorem GetNumberCruncher_changes_state_counterexample:
  "snd (invoke 0 ''GetNumberCruncher'' []
          (module_state [\<lparr>obj_class = ''MyServerImpl'', obj_dict = []\<rparr>])) \<noteq>
   module_state [\<lparr>obj_class = ''MyServerImpl'', obj_dict = []\<rparr>]"
proof -
  let ?srv = "\<lparr>obj_class = ''MyServerImpl'', obj_dict = []\<rparr>"
  have d: "deref 0 (module_state [?srv]) = Some ?srv" by (simp add: deref_def module_state_def)
  have c: "obj_class ?srv = ''MyServerImpl''" by simp
  have "snd (invoke 0 ''GetNumberCruncher'' [] (module_state [?srv])) =
      module_state ([?srv] @ [\<lparr>obj_class = ''NumberCruncher'', obj_dict = []\<rparr>])"
    by (simp add: invoke_MyServerImpl [OF d c] GetNumberCruncher_after_import)
  then show ?thesis by (simp add: module_state_def)
qed

text \<open>
  C4, amended. \<^verbatim>\<open>ComputePi\<close>, \<^verbatim>\<open>Subscribe\<close> and \<^verbatim>\<open>Unsubscribe\<close>, and every call other than
  \<^verbatim>\<open>GetNumberCruncher\<close>, leave the whole program state identical, for every argument.
  \<^verbatim>\<open>GetNumberCruncher\<close> leaves the module's globals and every object that existed before the
  call identical (the heap after the call, cut to its length before, is the heap
  before), and adds one object: in a state that holds the module's namespace, exactly one
  \<^verbatim>\<open>NumberCruncher\<close>, whose \<^verbatim>\<open>INumberCruncher\<close> pointer it returns. The same holds for any
  sequence of calls. No protocol couples successive calls: after any sequence of calls,
  a call of a method other than \<^verbatim>\<open>GetNumberCruncher\<close> on an object that exists returns what
  it would have returned before, and \<^verbatim>\<open>GetNumberCruncher\<close> still succeeds, its result
  differing only in the address of the new object.
\<close>

theorem methods_change_nothing_that_exists:
  "snd (ComputePi self s) = s \<and>
   snd (Subscribe self client s) = s \<and>
   snd (Unsubscribe self client s) = s \<and>
   (m \<noteq> ''GetNumberCruncher'' \<longrightarrow> snd (invoke a m args s) = s) \<and>
   globals (snd (GetNumberCruncher self s)) = globals s \<and>
   take (length (heap s)) (heap (snd (GetNumberCruncher self s))) = heap s \<and>
   (fst (module_exec env name) = Inr (globals s) \<longrightarrow>
      GetNumberCruncher self s =
        (Inr (PyPointer ''INumberCruncher'' (length (heap s))),
         s\<lparr>heap := heap s @ [\<lparr>obj_class = ''NumberCruncher'', obj_dict = []\<rparr>]\<rparr>)) \<and>
   globals (snd (invoke a m args s)) = globals s \<and>
   take (length (heap s)) (heap (snd (invoke a m args s))) = heap s \<and>
   globals (snd (run cs s)) = globals s \<and>
   take (length (heap s)) (heap (snd (run cs s))) = heap s \<and>
   (a < length (heap s) \<and> m \<noteq> ''GetNumberCruncher'' \<longrightarrow>
      fst (invoke a m args (snd (run cs s))) = fst (invoke a m args s)) \<and>
   (fst (module_exec env name) = Inr (globals s) \<longrightarrow>
      fst (GetNumberCruncher self (snd (run cs s))) =
        Inr (PyPointer ''INumberCruncher'' (length (heap (snd (run cs s))))))"
proof -
  have c1: "snd (ComputePi self s) = s" by (simp add: ComputePi_def)
  have c2: "snd (Subscribe self client s) = s" by (simp add: Subscribe_def)
  have c3: "snd (Unsubscribe self client s) = s" by (simp add: Unsubscribe_def)
  have same: "m \<noteq> ''GetNumberCruncher'' \<longrightarrow> snd (invoke a m args s) = s"
    using invoke_state_cases [of a m args s] by blast
  have exact: "fst (module_exec env name) = Inr (globals s) \<longrightarrow>
      GetNumberCruncher self s =
        (Inr (PyPointer ''INumberCruncher'' (length (heap s))),
         s\<lparr>heap := heap s @ [\<lparr>obj_class = ''NumberCruncher'', obj_dict = []\<rparr>]\<rparr>)"
  proof
    assume ns: "fst (module_exec env name) = Inr (globals s)"
    have g: "map_of (globals s) ''NumberCruncher'' = Some (PyClass ''NumberCruncher'')"
            "map_of (globals s) ''MyInterfaces'' = Some (PyTypeLib tlb_path)"
      using module_exec_namespace [OF ns] by simp_all
    show "GetNumberCruncher self s =
        (Inr (PyPointer ''INumberCruncher'' (length (heap s))),
         s\<lparr>heap := heap s @ [\<lparr>obj_class = ''NumberCruncher'', obj_dict = []\<rparr>]\<rparr>)"
      using g by (rule GetNumberCruncher_result)
  qed
  have indep: "a < length (heap s) \<and> m \<noteq> ''GetNumberCruncher'' \<longrightarrow>
      fst (invoke a m args (snd (run cs s))) = fst (invoke a m args s)"
  proof
    assume h: "a < length (heap s) \<and> m \<noteq> ''GetNumberCruncher''"
    then have "deref a s = Some (heap s ! a)" by (simp add: deref_def)
    then have d: "deref a (snd (run cs s)) = deref a s" by (simp add: run_deref)
    from h have n: "m \<noteq> ''GetNumberCruncher''" by simp
    from d n show "fst (invoke a m args (snd (run cs s))) = fst (invoke a m args s)"
      by (rule invoke_result_indep)
  qed
  have later: "fst (module_exec env name) = Inr (globals s) \<longrightarrow>
      fst (GetNumberCruncher self (snd (run cs s))) =
        Inr (PyPointer ''INumberCruncher'' (length (heap (snd (run cs s)))))"
  proof
    assume ns: "fst (module_exec env name) = Inr (globals s)"
    have g: "map_of (globals (snd (run cs s))) ''NumberCruncher'' = Some (PyClass ''NumberCruncher'')"
            "map_of (globals (snd (run cs s))) ''MyInterfaces'' = Some (PyTypeLib tlb_path)"
      using module_exec_namespace [OF ns] by (simp_all add: run_globals)
    show "fst (GetNumberCruncher self (snd (run cs s))) =
        Inr (PyPointer ''INumberCruncher'' (length (heap (snd (run cs s)))))"
      by (simp add: GetNumberCruncher_result [OF g])
  qed
  show ?thesis
    using c1 c2 c3 same GetNumberCruncher_globals [of self s] GetNumberCruncher_heap [of s self]
      exact invoke_globals [of a m args s] invoke_heap [of s a m args]
      run_globals [of cs s] run_heap [of s cs] indep later
    by (intro conjI)
qed

text \<open>
  The theorem after an import under comtypes 1.4.10, with one server object:
  \<^verbatim>\<open>GetNumberCruncher\<close> itself, and \<^verbatim>\<open>Subscribe\<close> before and after a run that creates a
  \<^verbatim>\<open>NumberCruncher\<close> and calls it.
\<close>

theorem methods_change_nothing_that_exists_witness:
  "fst (module_exec \<lparr>missing_modules = [], comtypes_version = Some (final_release 1 [4, 10]),
      typelib_loads = True, sys_argv = [''MyExeServerPy.py'']\<rparr> ''MyExeServerPy'') =
     Inr (globals (module_state [\<lparr>obj_class = ''MyServerImpl'', obj_dict = []\<rparr>])) \<and>
   GetNumberCruncher 0 (module_state [\<lparr>obj_class = ''MyServerImpl'', obj_dict = []\<rparr>]) =
     (Inr (PyPointer ''INumberCruncher'' 1),
      module_state [\<lparr>obj_class = ''MyServerImpl'', obj_dict = []\<rparr>,
                    \<lparr>obj_class = ''NumberCruncher'', obj_dict = []\<rparr>]) \<and>
   snd (invoke 0 ''Subscribe'' [PyNone]
          (module_state [\<lparr>obj_class = ''MyServerImpl'', obj_dict = []\<rparr>])) =
     module_state [\<lparr>obj_class = ''MyServerImpl'', obj_dict = []\<rparr>] \<and>
   fst (invoke 0 ''Subscribe'' [PyNone]
          (snd (run [Call 0 ''GetNumberCruncher'' [], Call 1 ''ComputePi'' []]
                  (module_state [\<lparr>obj_class = ''MyServerImpl'', obj_dict = []\<rparr>])))) =
     fst (invoke 0 ''Subscribe'' [PyNone]
            (module_state [\<lparr>obj_class = ''MyServerImpl'', obj_dict = []\<rparr>]))"
proof -
  let ?srv = "\<lparr>obj_class = ''MyServerImpl'', obj_dict = []\<rparr>"
  let ?s = "module_state [?srv]"
  let ?env = "\<lparr>missing_modules = [], comtypes_version = Some (final_release 1 [4, 10]),
      typelib_loads = True, sys_argv = [''MyExeServerPy.py'']\<rparr>"
  let ?cs = "[Call 0 ''GetNumberCruncher'' [], Call 1 ''ComputePi'' []]"
  have new: "\<not> older_than_1_4_9 (final_release 1 [4, 10])" by (rule version_order_examples)
  have ns: "fst (module_exec ?env ''MyExeServerPy'') = Inr (globals ?s)"
    using new by (simp add: module_exec_cases module_state_def)
  have h1: "(0::nat) < length (heap ?s)" by (simp add: module_state_def)
  have h2: "''Subscribe'' \<noteq> ''GetNumberCruncher''" by simp
  note T = methods_change_nothing_that_exists [where s = ?s and self = 0 and client = PyNone
      and a = 0 and m = "''Subscribe''" and args = "[PyNone]" and cs = ?cs
      and env = ?env and name = "''MyExeServerPy''"]
  from T have same: "''Subscribe'' \<noteq> ''GetNumberCruncher'' \<longrightarrow>
      snd (invoke 0 ''Subscribe'' [PyNone] ?s) = ?s"
    by (elim conjE)
  from T have exact: "fst (module_exec ?env ''MyExeServerPy'') = Inr (globals ?s) \<longrightarrow>
      GetNumberCruncher 0 ?s =
        (Inr (PyPointer ''INumberCruncher'' (length (heap ?s))),
         ?s\<lparr>heap := heap ?s @ [\<lparr>obj_class = ''NumberCruncher'', obj_dict = []\<rparr>]\<rparr>)"
    by (elim conjE)
  from T have indep: "(0::nat) < length (heap ?s) \<and> ''Subscribe'' \<noteq> ''GetNumberCruncher'' \<longrightarrow>
      fst (invoke 0 ''Subscribe'' [PyNone] (snd (run ?cs ?s))) =
      fst (invoke 0 ''Subscribe'' [PyNone] ?s)"
    by (elim conjE)
  from same h2 have r1: "snd (invoke 0 ''Subscribe'' [PyNone] ?s) = ?s" by (rule mp)
  from exact ns have "GetNumberCruncher 0 ?s =
        (Inr (PyPointer ''INumberCruncher'' (length (heap ?s))),
         ?s\<lparr>heap := heap ?s @ [\<lparr>obj_class = ''NumberCruncher'', obj_dict = []\<rparr>]\<rparr>)"
    by (rule mp)
  then have r0: "GetNumberCruncher 0 ?s =
     (Inr (PyPointer ''INumberCruncher'' 1),
      module_state [?srv, \<lparr>obj_class = ''NumberCruncher'', obj_dict = []\<rparr>])"
    by (simp add: module_state_def)
  from h1 h2 have h12: "(0::nat) < length (heap ?s) \<and> ''Subscribe'' \<noteq> ''GetNumberCruncher''"
    by (rule conjI)
  from indep h12 have r2: "fst (invoke 0 ''Subscribe'' [PyNone] (snd (run ?cs ?s))) =
      fst (invoke 0 ''Subscribe'' [PyNone] ?s)" by (rule mp)
  from ns r0 r1 r2 show ?thesis by (intro conjI)
qed

subsection \<open>GetNumberCruncher\<close>

text \<open>
  C8: every call of \<^verbatim>\<open>MyServerImpl.GetNumberCruncher\<close> constructs a fresh
  \<^verbatim>\<open>NumberCruncher\<close> and returns its \<^verbatim>\<open>INumberCruncher\<close> interface, and two calls never
  return the same object. In a state whose globals are the namespace the module body
  built, a call on a server object \<open>a\<close> returns an \<^verbatim>\<open>INumberCruncher\<close> pointer onto an address
  that held no object before, and the heap gains exactly one \<^verbatim>\<open>NumberCruncher\<close> there.
  After any further sequence of calls \<open>cs\<close>, a second call (on any server object \<open>b\<close>)
  succeeds in the same way, and its object sits at a strictly higher address than the
  first one's.
\<close>

theorem GetNumberCruncher_fresh_instance:
  assumes ns: "fst (module_exec env name) = Inr (globals s)"
    and a: "deref a s = Some oa" "obj_class oa = ''MyServerImpl''"
    and b: "deref b s = Some ob" "obj_class ob = ''MyServerImpl''"
  shows "deref (length (heap s)) s = None \<and>
         invoke a ''GetNumberCruncher'' [] s =
           (Inr (PyPointer ''INumberCruncher'' (length (heap s))),
            s\<lparr>heap := heap s @ [\<lparr>obj_class = ''NumberCruncher'', obj_dict = []\<rparr>]\<rparr>) \<and>
         (let s1 = snd (invoke a ''GetNumberCruncher'' [] s);
              s2 = snd (run cs s1)
          in invoke b ''GetNumberCruncher'' [] s2 =
               (Inr (PyPointer ''INumberCruncher'' (length (heap s2))),
                s2\<lparr>heap := heap s2 @ [\<lparr>obj_class = ''NumberCruncher'', obj_dict = []\<rparr>]\<rparr>) \<and>
             length (heap s) < length (heap s2))"
proof -
  let ?nc = "\<lparr>obj_class = ''NumberCruncher'', obj_dict = []\<rparr>"
  let ?s1 = "snd (invoke a ''GetNumberCruncher'' [] s)"
  let ?s2 = "snd (run cs ?s1)"
  have g: "map_of (globals s) ''NumberCruncher'' = Some (PyClass ''NumberCruncher'')"
          "map_of (globals s) ''MyInterfaces'' = Some (PyTypeLib tlb_path)"
    using module_exec_namespace [OF ns] by simp_all
  have fresh: "deref (length (heap s)) s = None" by (simp add: deref_def)
  have first: "invoke a ''GetNumberCruncher'' [] s =
      (Inr (PyPointer ''INumberCruncher'' (length (heap s))), s\<lparr>heap := heap s @ [?nc]\<rparr>)"
    by (simp add: invoke_MyServerImpl [OF a] GetNumberCruncher_result [OF g])
  have grown: "length (heap ?s1) = Suc (length (heap s))" by (simp add: first)
  have b1: "deref b ?s1 = Some ob"
    using b(1) by (auto simp: first deref_def nth_append split: if_splits)
  have b2: "deref b ?s2 = Some ob" using b1 by (rule run_deref)
  have g2: "globals ?s2 = globals s" by (simp add: run_globals invoke_globals)
  have second: "invoke b ''GetNumberCruncher'' [] ?s2 =
      (Inr (PyPointer ''INumberCruncher'' (length (heap ?s2))), ?s2\<lparr>heap := heap ?s2 @ [?nc]\<rparr>)"
    using g by (simp add: invoke_MyServerImpl [OF b2 b(2)] GetNumberCruncher_result g2)
  have "length (heap ?s1) \<le> length (heap ?s2)"
    using run_heap [of ?s1 cs] by (rule take_all_prefix(1))
  then have later: "length (heap s) < length (heap ?s2)" using grown by simp
  from fresh first second later show ?thesis by (simp only: Let_def)
qed

text \<open>
  The theorem after the module was imported under comtypes 1.4.10, with one server object.
\<close>

theorem GetNumberCruncher_fresh_instance_witness:
  "fst (module_exec \<lparr>missing_modules = [], comtypes_version = Some (final_release 1 [4, 10]),
      typelib_loads = True, sys_argv = [''MyExeServerPy.py'']\<rparr> ''MyExeServerPy'') =
     Inr (globals (module_state [\<lparr>obj_class = ''MyServerImpl'', obj_dict = []\<rparr>])) \<and>
   deref 0 (module_state [\<lparr>obj_class = ''MyServerImpl'', obj_dict = []\<rparr>]) =
     Some \<lparr>obj_class = ''MyServerImpl'', obj_dict = []\<rparr> \<and>
   invoke 0 ''GetNumberCruncher'' [] (module_state [\<lparr>obj_class = ''MyServerImpl'', obj_dict = []\<rparr>]) =
     (Inr (PyPointer ''INumberCruncher'' 1),
      module_state [\<lparr>obj_class = ''MyServerImpl'', obj_dict = []\<rparr>,
                    \<lparr>obj_class = ''NumberCruncher'', obj_dict = []\<rparr>])"
proof -
  let ?srv = "\<lparr>obj_class = ''MyServerImpl'', obj_dict = []\<rparr>"
  let ?s = "module_state [?srv]"
  let ?env = "\<lparr>missing_modules = [], comtypes_version = Some (final_release 1 [4, 10]),
      typelib_loads = True, sys_argv = [''MyExeServerPy.py'']\<rparr>"
  have new: "\<not> older_than_1_4_9 (final_release 1 [4, 10])" by (rule version_order_examples)
  have ns: "fst (module_exec ?env ''MyExeServerPy'') = Inr (globals ?s)"
    using new by (simp add: module_exec_cases module_state_def)
  have d: "deref 0 ?s = Some ?srv" by (simp add: deref_def module_state_def)
  have c: "obj_class ?srv = ''MyServerImpl''" by simp
  note T = GetNumberCruncher_fresh_instance [OF ns d c d c, of "[]"]
  from T have "invoke 0 ''GetNumberCruncher'' [] ?s =
      (Inr (PyPointer ''INumberCruncher'' (length (heap ?s))),
       ?s\<lparr>heap := heap ?s @ [\<lparr>obj_class = ''NumberCruncher'', obj_dict = []\<rparr>]\<rparr>)"
    by (elim conjE)
  then have r: "invoke 0 ''GetNumberCruncher'' [] ?s =
      (Inr (PyPointer ''INumberCruncher'' 1),
       module_state [?srv, \<lparr>obj_class = ''NumberCruncher'', obj_dict = []\<rparr>])"
    by (simp add: module_state_def)
  from ns d r show ?thesis by (intro conjI)
qed

subsection \<open>The import guard\<close>

text \<open>
  C9 as stated: the module raises \<^verbatim>\<open>ImportError\<close> if and only if the installed comtypes is
  older than 1.4.9. With comtypes 1.4.10 installed and \<^verbatim>\<open>packaging\<close> missing, line 8 raises
  \<^verbatim>\<open>ModuleNotFoundError\<close>, which is an \<^verbatim>\<open>ImportError\<close>, although the version is not older: the
  "only if" half is false.
\<close>

theorem import_error_counterexample:
  "\<not> ((\<exists>e. fst (module_exec
            \<lparr>missing_modules = [''packaging.version''],
               comtypes_version = Some (final_release 1 [4, 10]),
               typelib_loads = True, sys_argv = [''MyExeServerPy.py'']\<rparr>
            ''MyExeServerPy'') = Inl e \<and> is_ImportError e) \<longleftrightarrow>
       older_than_1_4_9 (final_release 1 [4, 10]))"
proof -
  have new: "\<not> older_than_1_4_9 (final_release 1 [4, 10])"
    by (rule version_order_examples)
  have raised: "fst (module_exec
            \<lparr>missing_modules = [''packaging.version''],
               comtypes_version = Some (final_release 1 [4, 10]),
               typelib_loads = True, sys_argv = [''MyExeServerPy.py'']\<rparr>
            ''MyExeServerPy'') = Inl (ModuleNotFoundError ''packaging.version'')"
    by (simp add: module_exec_cases)
  have ex: "\<exists>e. fst (module_exec
            \<lparr>missing_modules = [''packaging.version''],
               comtypes_version = Some (final_release 1 [4, 10]),
               typelib_loads = True, sys_argv = [''MyExeServerPy.py'']\<rparr>
            ''MyExeServerPy'') = Inl e \<and> is_ImportError e"
    unfolding raised by simp
  from ex new show ?thesis by blast
qed

text \<open>
  C9, amended. Provided the modules that the module imports can be imported
  (\<^verbatim>\<open>comtypes.client\<close>, \<^verbatim>\<open>comtypes.server.localserver\<close>, \<^verbatim>\<open>packaging.version\<close>, and for a script
  \<^verbatim>\<open>comtypes.server.register\<close>), the module raises \<^verbatim>\<open>ImportError\<close> if and only if the installed
  comtypes is older than 1.4.9, in packaging's order (a pre-release or a development
  release of 1.4.9 counts as older). When it is older, the exception is the one of
  line 10, no server class is defined (the body yields no namespace) and no type library
  is loaded (the trace is empty). When one of the first three modules cannot be
  imported, the import statement itself raises \<^verbatim>\<open>ModuleNotFoundError\<close>, whatever the
  version, and nothing is loaded either.
\<close>

theorem import_guard:
  "(imports_succeed env \<and> (name = ''__main__'' \<longrightarrow>
        ''comtypes.server.register'' \<notin> set (missing_modules env)) \<longrightarrow>
      ((\<exists>e. fst (module_exec env name) = Inl e \<and> is_ImportError e) \<longleftrightarrow>
       (\<exists>v. comtypes_version env = Some v \<and> older_than_1_4_9 v))) \<and>
   (imports_succeed env \<and> comtypes_version env = Some v \<and> older_than_1_4_9 v \<longrightarrow>
      fst (module_exec env name) = Inl (ImportError
        ''comtypes 1.4.9 or newer required due to https://github.com/enthought/comtypes/pull/678'') \<and>
      snd (module_exec env name) = [] \<and>
      loaded (snd (module_exec env name)) = [] \<and>
      (\<forall>g. fst (module_exec env name) \<noteq> Inr g)) \<and>
   (\<not> imports_succeed env \<longrightarrow>
      (\<exists>m. fst (module_exec env name) = Inl (ModuleNotFoundError m)) \<and>
      snd (module_exec env name) = [])"
proof -
  have iff: "imports_succeed env \<and> (name = ''__main__'' \<longrightarrow>
        ''comtypes.server.register'' \<notin> set (missing_modules env)) \<longrightarrow>
      ((\<exists>e. fst (module_exec env name) = Inl e \<and> is_ImportError e) \<longleftrightarrow>
       (\<exists>v. comtypes_version env = Some v \<and> older_than_1_4_9 v))"
    by (auto simp: imports_succeed_iff module_exec_cases split: option.splits if_splits)
  have old: "imports_succeed env \<and> comtypes_version env = Some v \<and> older_than_1_4_9 v \<longrightarrow>
      fst (module_exec env name) = Inl (ImportError
        ''comtypes 1.4.9 or newer required due to https://github.com/enthought/comtypes/pull/678'') \<and>
      snd (module_exec env name) = [] \<and>
      loaded (snd (module_exec env name)) = [] \<and>
      (\<forall>g. fst (module_exec env name) \<noteq> Inr g)"
    by (simp add: imports_succeed_iff module_exec_cases)
  have missing: "\<not> imports_succeed env \<longrightarrow>
      (\<exists>m. fst (module_exec env name) = Inl (ModuleNotFoundError m)) \<and>
      snd (module_exec env name) = []"
    by (auto simp: imports_succeed_iff module_exec_cases)
  from iff old missing show ?thesis by (intro conjI)
qed

text \<open>
The theorem for a script under comtypes 1.4.9rc1.
\<close>

theorem import_guard_witness:
  "imports_succeed \<lparr>missing_modules = [],
      comtypes_version = Some ((final_release 1 [4, 9])\<lparr>pre := Some (RC, 1)\<rparr>),
      typelib_loads = True, sys_argv = [''MyExeServerPy.py'']\<rparr> \<and>
   older_than_1_4_9 ((final_release 1 [4, 9])\<lparr>pre := Some (RC, 1)\<rparr>) \<and>
   fst (module_exec \<lparr>missing_modules = [],
      comtypes_version = Some ((final_release 1 [4, 9])\<lparr>pre := Some (RC, 1)\<rparr>),
      typelib_loads = True, sys_argv = [''MyExeServerPy.py'']\<rparr> ''__main__'') =
     Inl (ImportError
       ''comtypes 1.4.9 or newer required due to https://github.com/enthought/comtypes/pull/678'') \<and>
   snd (module_exec \<lparr>missing_modules = [],
      comtypes_version = Some ((final_release 1 [4, 9])\<lparr>pre := Some (RC, 1)\<rparr>),
      typelib_loads = True, sys_argv = [''MyExeServerPy.py'']\<rparr> ''__main__'') = []"
proof -
  let ?v = "(final_release 1 [4, 9])\<lparr>pre := Some (RC, 1)\<rparr>"
  let ?env = "\<lparr>missing_modules = [], comtypes_version = Some ?v,
      typelib_loads = True, sys_argv = [''MyExeServerPy.py'']\<rparr>"
  have i: "imports_succeed ?env" by (simp add: imports_succeed_def)
  have v: "comtypes_version ?env = Some ?v" by simp
  have o: "older_than_1_4_9 ?v" by (rule version_order_examples)
  have h: "imports_succeed ?env \<and> comtypes_version ?env = Some ?v \<and> older_than_1_4_9 ?v"
    using i v o by (intro conjI)
  have "imports_succeed ?env \<and> comtypes_version ?env = Some ?v \<and> older_than_1_4_9 ?v \<longrightarrow>
      fst (module_exec ?env ''__main__'') = Inl (ImportError
        ''comtypes 1.4.9 or newer required due to https://github.com/enthought/comtypes/pull/678'') \<and>
      snd (module_exec ?env ''__main__'') = [] \<and>
      loaded (snd (module_exec ?env ''__main__'')) = [] \<and>
      (\<forall>g. fst (module_exec ?env ''__main__'') \<noteq> Inr g)"
    using import_guard [of ?env "''__main__''" ?v] by (elim conjE)
  from this h have r: "fst (module_exec ?env ''__main__'') = Inl (ImportError
        ''comtypes 1.4.9 or newer required due to https://github.com/enthought/comtypes/pull/678'') \<and>
      snd (module_exec ?env ''__main__'') = [] \<and>
      loaded (snd (module_exec ?env ''__main__'')) = [] \<and>
      (\<forall>g. fst (module_exec ?env ''__main__'') \<noteq> Inr g)"
    by (rule mp)
  from i o r show ?thesis by blast
qed

subsection \<open>The script\<close>




text \<open>
  C6: the server is an out-of-process COM server: the class body of \<^verbatim>\<open>MyServerImpl\<close> sets
  \<^verbatim>\<open>_reg_clsctx_\<close> to \<^verbatim>\<open>CLSCTX_LOCAL_SERVER\<close> and \<^verbatim>\<open>_regcls_\<close> to \<^verbatim>\<open>REGCLS_MULTIPLEUSE\<close>, and
  every class that any run of the module hands to \<^verbatim>\<open>UseCommandLine\<close> is a class of the
  program with these two settings.
\<close>

theorem MyServerImpl_out_of_process:
  "map_of (cls_attrs MyServerImpl) ''_reg_clsctx_'' = Some (AClsctx CLSCTX_LOCAL_SERVER) \<and>
   map_of (cls_attrs MyServerImpl) ''_regcls_'' = Some (ARegcls REGCLS_MULTIPLEUSE) \<and>
   (\<forall>cn \<in> set (registered (snd (module_exec env name))).
      \<exists>c. lookup_class cn = Some c \<and>
          map_of (cls_attrs c) ''_reg_clsctx_'' = Some (AClsctx CLSCTX_LOCAL_SERVER) \<and>
          map_of (cls_attrs c) ''_regcls_'' = Some (ARegcls REGCLS_MULTIPLEUSE))"
proof -
  have a: "map_of (cls_attrs MyServerImpl) ''_reg_clsctx_'' = Some (AClsctx CLSCTX_LOCAL_SERVER)"
    by (simp add: MyServerImpl_def MyServerImpl_attrs_def)
  have b: "map_of (cls_attrs MyServerImpl) ''_regcls_'' = Some (ARegcls REGCLS_MULTIPLEUSE)"
    by (simp add: MyServerImpl_def MyServerImpl_attrs_def)
  have c: "\<forall>cn \<in> set (registered (snd (module_exec env name))).
      \<exists>c. lookup_class cn = Some c \<and>
          map_of (cls_attrs c) ''_reg_clsctx_'' = Some (AClsctx CLSCTX_LOCAL_SERVER) \<and>
          map_of (cls_attrs c) ''_regcls_'' = Some (ARegcls REGCLS_MULTIPLEUSE)"
    using a b registered_cases [of env name] by (auto simp: lookup_class_cases)
  from a b c show ?thesis by (intro conjI)
qed

text \<open>
The theorem for the class the script registers under comtypes 1.4.9.
\<close>

theorem MyServerImpl_out_of_process_witness:
  "''MyServerImpl'' \<in> set (registered (snd (module_exec
      \<lparr>missing_modules = [], comtypes_version = Some (final_release 1 [4, 9]),
      typelib_loads = True, sys_argv = [''MyExeServerPy.py'']\<rparr> ''__main__''))) \<and>
   (\<exists>c. lookup_class ''MyServerImpl'' = Some c \<and>
        map_of (cls_attrs c) ''_reg_clsctx_'' = Some (AClsctx CLSCTX_LOCAL_SERVER) \<and>
        map_of (cls_attrs c) ''_regcls_'' = Some (ARegcls REGCLS_MULTIPLEUSE))"
proof -
  let ?env = "\<lparr>missing_modules = [], comtypes_version = Some (final_release 1 [4, 9]),
      typelib_loads = True, sys_argv = [''MyExeServerPy.py'']\<rparr>"
  have new: "\<not> older_than_1_4_9 (final_release 1 [4, 9])" by (rule version_order_examples)
  have mem: "''MyServerImpl'' \<in> set (registered (snd (module_exec ?env ''__main__'')))"
    using new by (simp add: module_exec_cases)
  have "\<forall>cn \<in> set (registered (snd (module_exec ?env ''__main__''))).
      \<exists>c. lookup_class cn = Some c \<and>
          map_of (cls_attrs c) ''_reg_clsctx_'' = Some (AClsctx CLSCTX_LOCAL_SERVER) \<and>
          map_of (cls_attrs c) ''_regcls_'' = Some (ARegcls REGCLS_MULTIPLEUSE)"
    using MyServerImpl_out_of_process [of ?env "''__main__''"] by (elim conjE)
  from this mem have "\<exists>c. lookup_class ''MyServerImpl'' = Some c \<and>
        map_of (cls_attrs c) ''_reg_clsctx_'' = Some (AClsctx CLSCTX_LOCAL_SERVER) \<and>
        map_of (cls_attrs c) ''_regcls_'' = Some (ARegcls REGCLS_MULTIPLEUSE)"
    by (rule bspec)
  with mem show ?thesis by (rule conjI)
qed

subsection \<open>The methods and the classes, counted\<close>

lemma returns_constant_ComputePi: "returns_constant (Method0 ComputePi)"
  unfolding returns_constant_def
  by (rule exI [of _ "PyFloat float_3_14"]) (simp add: ComputePi_def)

lemma is_noop_Subscribe: "is_noop (Method1 Subscribe)"
  by (simp add: is_noop_def Subscribe_def)

lemma is_noop_Unsubscribe: "is_noop (Method1 Unsubscribe)"
  by (simp add: is_noop_def Unsubscribe_def)

lemma not_constant_Subscribe: "\<not> returns_constant (Method1 Subscribe)"
  by (simp add: returns_constant_def Subscribe_def)

lemma not_constant_Unsubscribe: "\<not> returns_constant (Method1 Unsubscribe)"
  by (simp add: returns_constant_def Unsubscribe_def)

lemma not_noop_ComputePi: "\<not> is_noop (Method0 ComputePi)"
  by (simp add: is_noop_def ComputePi_def)

lemma not_constant_GetNumberCruncher: "\<not> returns_constant (Method0 GetNumberCruncher)"
proof
  assume "returns_constant (Method0 GetNumberCruncher)"
  then obtain v where "\<forall>self s. GetNumberCruncher self s = (Inr v, s)"
    by (auto simp: returns_constant_def)
  then have "GetNumberCruncher 0 (module_state []) = (Inr v, module_state [])"
    by blast
  then have "module_state ([] @ [\<lparr>obj_class = ''NumberCruncher'', obj_dict = []\<rparr>]) = module_state []"
    by (simp only: GetNumberCruncher_after_import prod.inject)
  then show False by (simp add: module_state_def)
qed

lemma not_noop_GetNumberCruncher: "\<not> is_noop (Method0 GetNumberCruncher)"
proof
  assume "is_noop (Method0 GetNumberCruncher)"
  then have "GetNumberCruncher 0 (module_state []) = (Inr PyNone, module_state [])"
    by (simp add: is_noop_def)
  then show False by (simp add: GetNumberCruncher_after_import)
qed

lemma exposed_methods_list:
  "exposed_methods =
     [(''NumberCruncher'', ''ComputePi'', Method0 ComputePi),
      (''MyServerImpl'', ''GetNumberCruncher'', Method0 GetNumberCruncher),
      (''MyServerImpl'', ''Subscribe'', Method1 Subscribe),
      (''MyServerImpl'', ''Unsubscribe'', Method1 Unsubscribe)]"
  by (simp add: exposed_methods_def program_classes_def NumberCruncher_def MyServerImpl_def)

lemma registry_attrs_NumberCruncher: "registry_attrs NumberCruncher = []"
  by (simp add: registry_attrs_def is_registry_attr_def NumberCruncher_def NumberCruncher_attrs_def)

lemma registry_attrs_MyServerImpl:
  "registry_attrs MyServerImpl = [''_reg_threading_'', ''_reg_desc_'', ''_reg_clsctx_'', ''_regcls_'']"
  by (simp add: registry_attrs_def is_registry_attr_def MyServerImpl_def MyServerImpl_attrs_def)

lemma constant_methods:
  "filter (\<lambda>(c, n, f). returns_constant f) exposed_methods =
     [(''NumberCruncher'', ''ComputePi'', Method0 ComputePi)]"
  by (simp add: exposed_methods_list returns_constant_ComputePi not_constant_GetNumberCruncher
      not_constant_Subscribe not_constant_Unsubscribe)

lemma noop_methods:
  "filter (\<lambda>(c, n, f). is_noop f) exposed_methods =
     [(''MyServerImpl'', ''Subscribe'', Method1 Subscribe),
      (''MyServerImpl'', ''Unsubscribe'', Method1 Unsubscribe)]"
  by (simp add: exposed_methods_list not_noop_ComputePi not_noop_GetNumberCruncher
      is_noop_Subscribe is_noop_Unsubscribe)

text \<open>
  C3 as stated: the classes expose exactly two methods, one returning a constant and the
  rest no-ops. The source defines four, so the statement is false.
\<close>

theorem two_methods_counterexample:
  "\<not> (length exposed_methods = 2 \<and>
      length (filter (\<lambda>(c, n, f). returns_constant f) exposed_methods) = 1 \<and>
      (\<forall>(c, n, f) \<in> set exposed_methods. returns_constant f \<or> is_noop f))"
  by (simp add: exposed_methods_list)

text \<open>
  C3, amended: the classes of the program expose exactly four methods.
  \<^verbatim>\<open>NumberCruncher.ComputePi\<close> is the one that returns a hardcoded constant;
  \<^verbatim>\<open>MyServerImpl.Subscribe\<close> and \<^verbatim>\<open>MyServerImpl.Unsubscribe\<close> are the no-ops; the fourth,
  \<^verbatim>\<open>MyServerImpl.GetNumberCruncher\<close>, is neither: after the module was imported, whatever
  objects exist, it creates a \<^verbatim>\<open>NumberCruncher\<close> and returns its \<^verbatim>\<open>INumberCruncher\<close>
  interface.
\<close>

theorem four_methods:
  "map (\<lambda>(c, n, f). (c, n)) exposed_methods =
     [(''NumberCruncher'', ''ComputePi''),
      (''MyServerImpl'', ''GetNumberCruncher''),
      (''MyServerImpl'', ''Subscribe''),
      (''MyServerImpl'', ''Unsubscribe'')] \<and>
   length exposed_methods = 4 \<and>
   map (\<lambda>(c, n, f). n) (filter (\<lambda>(c, n, f). returns_constant f) exposed_methods) =
     [''ComputePi''] \<and>
   map (\<lambda>(c, n, f). n) (filter (\<lambda>(c, n, f). is_noop f) exposed_methods) =
     [''Subscribe'', ''Unsubscribe''] \<and>
   map_of (cls_methods MyServerImpl) ''GetNumberCruncher'' = Some (Method0 GetNumberCruncher) \<and>
   GetNumberCruncher self (module_state h) =
     (Inr (PyPointer ''INumberCruncher'' (length h)),
      module_state (h @ [\<lparr>obj_class = ''NumberCruncher'', obj_dict = []\<rparr>]))"
proof -
  have names: "map (\<lambda>(c, n, f). (c, n)) exposed_methods =
     [(''NumberCruncher'', ''ComputePi''),
      (''MyServerImpl'', ''GetNumberCruncher''),
      (''MyServerImpl'', ''Subscribe''),
      (''MyServerImpl'', ''Unsubscribe'')]"
    by (simp add: exposed_methods_list)
  have count: "length exposed_methods = 4" by (simp add: exposed_methods_list)
  have const: "map (\<lambda>(c, n, f). n) (filter (\<lambda>(c, n, f). returns_constant f) exposed_methods) =
     [''ComputePi'']"
    by (simp add: constant_methods)
  have noop: "map (\<lambda>(c, n, f). n) (filter (\<lambda>(c, n, f). is_noop f) exposed_methods) =
     [''Subscribe'', ''Unsubscribe'']"
    by (simp add: noop_methods)
  have fourth: "map_of (cls_methods MyServerImpl) ''GetNumberCruncher'' =
      Some (Method0 GetNumberCruncher)"
    by (simp add: methods_MyServerImpl)
  have creates: "GetNumberCruncher self (module_state h) =
     (Inr (PyPointer ''INumberCruncher'' (length h)),
      module_state (h @ [\<lparr>obj_class = ''NumberCruncher'', obj_dict = []\<rparr>]))"
    by (rule GetNumberCruncher_after_import)
  from names count const noop fourth creates show ?thesis by (intro conjI)
qed

text \<open>
  C5 as stated: the one class that carries registry attributes and is passed to
  \<^verbatim>\<open>UseCommandLine\<close> is also the class of the method that returns the constant. No class
  of the program is all three, so the statement is false: \<^verbatim>\<open>ComputePi\<close> is a method of
  \<^verbatim>\<open>NumberCruncher\<close>, which has no registry attribute, and no method of \<^verbatim>\<open>MyServerImpl\<close>
  returns a constant.
\<close>

theorem constant_in_registered_class_counterexample:
  "\<not> (\<exists>c \<in> set program_classes.
        registry_attrs c \<noteq> [] \<and>
        cls_name c \<in> set (registered (snd (module_exec
          \<lparr>missing_modules = [], comtypes_version = Some (final_release 1 [4, 9]),
          typelib_loads = True, sys_argv = [''MyExeServerPy.py'']\<rparr> ''__main__''))) \<and>
        (\<exists>n f. (n, f) \<in> set (cls_methods c) \<and> returns_constant f))"
proof -
  have nc: "registry_attrs NumberCruncher = []" by (rule registry_attrs_NumberCruncher)
  have ms: "\<not> (\<exists>n f. (n, f) \<in> set (cls_methods MyServerImpl) \<and> returns_constant f)"
    by (auto simp: MyServerImpl_def not_constant_GetNumberCruncher not_constant_Subscribe
        not_constant_Unsubscribe)
  show ?thesis using nc ms by (simp add: program_classes_def)
qed

text \<open>
  C5, amended: exactly one class, \<^verbatim>\<open>MyServerImpl\<close>, carries registry attributes, and it is
  the only class ever passed to \<^verbatim>\<open>UseCommandLine\<close> (it is passed when the script runs and
  its body gets to the end). The method that returns the constant, \<^verbatim>\<open>ComputePi\<close>, belongs
  to the other class, \<^verbatim>\<open>NumberCruncher\<close>, which has no registry attribute and is never
  passed to \<^verbatim>\<open>UseCommandLine\<close>.
\<close>

theorem one_registered_class:
  "map cls_name (filter (\<lambda>c. registry_attrs c \<noteq> []) program_classes) = [''MyServerImpl''] \<and>
   set (registered (snd (module_exec env name))) \<subseteq> {''MyServerImpl''} \<and>
   (imports_succeed env \<and> ''comtypes.server.register'' \<notin> set (missing_modules env) \<and>
    comtypes_version env = Some v \<and> \<not> older_than_1_4_9 v \<and> typelib_loads env \<longrightarrow>
      registered (snd (module_exec env ''__main__'')) = [''MyServerImpl'']) \<and>
   map (\<lambda>(c, n, f). (c, n)) (filter (\<lambda>(c, n, f). returns_constant f) exposed_methods) =
     [(''NumberCruncher'', ''ComputePi'')] \<and>
   registry_attrs NumberCruncher = [] \<and>
   ''NumberCruncher'' \<notin> set (registered (snd (module_exec env name)))"
proof -
  have one: "map cls_name (filter (\<lambda>c. registry_attrs c \<noteq> []) program_classes) =
      [''MyServerImpl'']"
  proof -
    have n: "cls_name MyServerImpl = ''MyServerImpl''" by (simp add: MyServerImpl_def)
    show ?thesis
      by (simp add: program_classes_def registry_attrs_NumberCruncher
          registry_attrs_MyServerImpl n)
  qed
  have sub: "set (registered (snd (module_exec env name))) \<subseteq> {''MyServerImpl''}"
    using registered_cases [of env name] by auto
  have reg: "imports_succeed env \<and> ''comtypes.server.register'' \<notin> set (missing_modules env) \<and>
      comtypes_version env = Some v \<and> \<not> older_than_1_4_9 v \<and> typelib_loads env \<longrightarrow>
      registered (snd (module_exec env ''__main__'')) = [''MyServerImpl'']"
    by (simp add: imports_succeed_iff module_exec_cases)
  have const: "map (\<lambda>(c, n, f). (c, n))
      (filter (\<lambda>(c, n, f). returns_constant f) exposed_methods) =
     [(''NumberCruncher'', ''ComputePi'')]"
    by (simp add: constant_methods)
  have nc: "registry_attrs NumberCruncher = []" by (rule registry_attrs_NumberCruncher)
  have notreg: "''NumberCruncher'' \<notin> set (registered (snd (module_exec env name)))"
    using registered_cases [of env name] by auto
  from one sub reg const nc notreg show ?thesis by (intro conjI)
qed

text \<open>
The theorem for the script under comtypes 1.4.9.
\<close>

theorem one_registered_class_witness:
  "imports_succeed \<lparr>missing_modules = [], comtypes_version = Some (final_release 1 [4, 9]),
          typelib_loads = True, sys_argv = [''MyExeServerPy.py'']\<rparr> \<and>
   \<not> older_than_1_4_9 (final_release 1 [4, 9]) \<and>
   registered (snd (module_exec \<lparr>missing_modules = [], comtypes_version = Some (final_release 1 [4, 9]),
          typelib_loads = True, sys_argv = [''MyExeServerPy.py'']\<rparr>
     ''__main__'')) = [''MyServerImpl'']"
proof -
  let ?env = "\<lparr>missing_modules = [], comtypes_version = Some (final_release 1 [4, 9]),
          typelib_loads = True, sys_argv = [''MyExeServerPy.py'']\<rparr>"
  have i: "imports_succeed ?env" by (simp add: imports_succeed_def)
  have new: "\<not> older_than_1_4_9 (final_release 1 [4, 9])" by (rule version_order_examples)
  have h: "imports_succeed ?env \<and> ''comtypes.server.register'' \<notin> set (missing_modules ?env) \<and>
      comtypes_version ?env = Some (final_release 1 [4, 9]) \<and>
      \<not> older_than_1_4_9 (final_release 1 [4, 9]) \<and> typelib_loads ?env"
    using i new by simp
  have "imports_succeed ?env \<and> ''comtypes.server.register'' \<notin> set (missing_modules ?env) \<and>
      comtypes_version ?env = Some (final_release 1 [4, 9]) \<and>
      \<not> older_than_1_4_9 (final_release 1 [4, 9]) \<and> typelib_loads ?env \<longrightarrow>
      registered (snd (module_exec ?env ''__main__'')) = [''MyServerImpl'']"
    using one_registered_class [of ?env "''__main__''" "final_release 1 [4, 9]"] by (elim conjE)
  from this h have r: "registered (snd (module_exec ?env ''__main__'')) = [''MyServerImpl'']"
    by (rule mp)
  from i new r show ?thesis by (intro conjI)
qed

subsection \<open>NumberCruncher is not creatable\<close>

lemma comtypes_effect_cases:
  "comtypes_effect (snd (module_exec env name)) reg = reg \<or>
   comtypes_effect (snd (module_exec env name)) reg =
     parse_arguments [''MyServerImpl''] (tl (sys_argv env)) reg"
  by (simp add: module_exec_cases UseCommandLine_def split: option.split)

lemma parse_arguments_other_class:
  assumes "x \<notin> set classes" and "x \<notin> reg"
  shows "x \<notin> parse_arguments classes as reg"
  using assms by (induction as arbitrary: reg) auto

text \<open>
  C10: \<^verbatim>\<open>NumberCruncher\<close> is not creatable by clients. Its class body declares the
  interface \<^verbatim>\<open>INumberCruncher\<close> and nothing else: it has no registry attribute, and no CLSID
  either in its body or from its base class, unlike \<^verbatim>\<open>MyServerImpl\<close>, which has the CLSID of
  the coclass. No run of the module passes it to \<^verbatim>\<open>UseCommandLine\<close>, and no run registers
  it. An object comes into being only by a call of \<^verbatim>\<open>GetNumberCruncher\<close> on a
  \<^verbatim>\<open>MyServerImpl\<close> object; and a call that returns an interface pointer is either that
  call, the pointer being onto the new object, or \<^verbatim>\<open>QueryInterface\<close> on an object the
  caller already holds, the pointer being onto that same object.
\<close>

theorem NumberCruncher_not_creatable:
  "cls_attrs NumberCruncher = [(''_com_interfaces_'', AIfaces [''INumberCruncher''])] \<and>
   registry_attrs NumberCruncher = [] \<and>
   \<not> has_clsid NumberCruncher \<and>
   has_clsid MyServerImpl \<and>
   cls_name NumberCruncher \<notin> set (registered (snd (module_exec env name))) \<and>
   (cls_name NumberCruncher \<notin> reg \<longrightarrow>
      cls_name NumberCruncher \<notin> comtypes_effect (snd (module_exec env name)) reg) \<and>
   (heap (snd (invoke a m args s)) \<noteq> heap s \<longrightarrow>
      m = ''GetNumberCruncher'' \<and>
      (\<exists>ob. deref a s = Some ob \<and> obj_class ob = ''MyServerImpl'')) \<and>
   (fst (invoke a m args s) = Inr (PyPointer i p) \<longrightarrow>
      (m = ''GetNumberCruncher'' \<and> p = length (heap s) \<and>
       (\<exists>ob. deref a s = Some ob \<and> obj_class ob = ''MyServerImpl'')) \<or>
      (m = ''QueryInterface'' \<and> p = a))"
proof -
  have n: "cls_name NumberCruncher = ''NumberCruncher''" by (simp add: NumberCruncher_def)
  have attrs: "cls_attrs NumberCruncher = [(''_com_interfaces_'', AIfaces [''INumberCruncher''])]"
    by (simp add: NumberCruncher_def NumberCruncher_attrs_def)
  have noreg: "registry_attrs NumberCruncher = []" by (rule registry_attrs_NumberCruncher)
  have noclsid: "\<not> has_clsid NumberCruncher"
    by (simp add: has_clsid_def attrs_NumberCruncher)
  have clsid: "has_clsid MyServerImpl"
    by (simp add: has_clsid_def attrs_MyServerImpl)
  have notreg: "cls_name NumberCruncher \<notin> set (registered (snd (module_exec env name)))"
    using registered_cases [of env name] by (auto simp: n)
  have never: "cls_name NumberCruncher \<notin> reg \<longrightarrow>
      cls_name NumberCruncher \<notin> comtypes_effect (snd (module_exec env name)) reg"
  proof
    assume out: "cls_name NumberCruncher \<notin> reg"
    have "cls_name NumberCruncher \<notin> set [''MyServerImpl'']" by (simp add: n)
    from this out have "cls_name NumberCruncher \<notin>
        parse_arguments [''MyServerImpl''] (tl (sys_argv env)) reg"
      by (rule parse_arguments_other_class)
    with out show "cls_name NumberCruncher \<notin> comtypes_effect (snd (module_exec env name)) reg"
      using comtypes_effect_cases [of env name reg] by auto
  qed
  have create: "heap (snd (invoke a m args s)) \<noteq> heap s \<longrightarrow>
      m = ''GetNumberCruncher'' \<and>
      (\<exists>ob. deref a s = Some ob \<and> obj_class ob = ''MyServerImpl'')"
    using invoke_state_cases [of a m args s] by auto
  have ptr: "fst (invoke a m args s) = Inr (PyPointer i p) \<longrightarrow>
      (m = ''GetNumberCruncher'' \<and> p = length (heap s) \<and>
       (\<exists>ob. deref a s = Some ob \<and> obj_class ob = ''MyServerImpl'')) \<or>
      (m = ''QueryInterface'' \<and> p = a)"
    using invoke_pointer_cases [of a m args s i p] by blast
  from attrs noreg noclsid clsid notreg never create ptr show ?thesis by (intro conjI)
qed

text \<open>
The theorem for a call that does return an interface pointer.
\<close>

theorem NumberCruncher_not_creatable_witness:
  "fst (invoke 0 ''GetNumberCruncher'' []
          (module_state [\<lparr>obj_class = ''MyServerImpl'', obj_dict = []\<rparr>])) =
     Inr (PyPointer ''INumberCruncher'' 1) \<and>
   (1::nat) = length (heap (module_state [\<lparr>obj_class = ''MyServerImpl'', obj_dict = []\<rparr>])) \<and>
   (\<exists>ob. deref 0 (module_state [\<lparr>obj_class = ''MyServerImpl'', obj_dict = []\<rparr>]) = Some ob \<and>
         obj_class ob = ''MyServerImpl'')"
proof -
  let ?srv = "\<lparr>obj_class = ''MyServerImpl'', obj_dict = []\<rparr>"
  let ?s = "module_state [?srv]"
  have d: "deref 0 ?s = Some ?srv" by (simp add: deref_def module_state_def)
  have c: "obj_class ?srv = ''MyServerImpl''" by simp
  have "fst (invoke 0 ''GetNumberCruncher'' [] ?s) =
      Inr (PyPointer ''INumberCruncher'' (length [?srv]))"
    by (simp add: invoke_MyServerImpl [OF d c] GetNumberCruncher_after_import)
  then have r: "fst (invoke 0 ''GetNumberCruncher'' [] ?s) = Inr (PyPointer ''INumberCruncher'' 1)"
    by simp
  have "fst (invoke 0 ''GetNumberCruncher'' [] ?s) = Inr (PyPointer ''INumberCruncher'' 1) \<longrightarrow>
      (''GetNumberCruncher'' = ''GetNumberCruncher'' \<and> (1::nat) = length (heap ?s) \<and>
       (\<exists>ob. deref 0 ?s = Some ob \<and> obj_class ob = ''MyServerImpl'')) \<or>
      (''GetNumberCruncher'' = ''QueryInterface'' \<and> (1::nat) = 0)"
    using NumberCruncher_not_creatable [where a = 0 and m = "''GetNumberCruncher''"
        and args = "[]" and s = ?s and i = "''INumberCruncher''" and p = 1
        and env = "\<lparr>missing_modules = [], comtypes_version = Some (final_release 1 [4, 9]),
              typelib_loads = True, sys_argv = [''MyExeServerPy.py'']\<rparr>"
        and name = "''__main__''" and reg = "{}"]
    by (elim conjE)
  from this r have alt: "(''GetNumberCruncher'' = ''GetNumberCruncher'' \<and>
       (1::nat) = length (heap ?s) \<and>
       (\<exists>ob. deref 0 ?s = Some ob \<and> obj_class ob = ''MyServerImpl'')) \<or>
      (''GetNumberCruncher'' = ''QueryInterface'' \<and> (1::nat) = 0)"
    by (rule mp)
  have "\<not> (''GetNumberCruncher'' = ''QueryInterface'' \<and> (1::nat) = 0)" by simp
  with alt have "(1::nat) = length (heap ?s) \<and>
       (\<exists>ob. deref 0 ?s = Some ob \<and> obj_class ob = ''MyServerImpl'')"
    by blast
  with r show ?thesis by (rule conjI)
qed

end
